theory Spec2Isabelle
  imports Main
begin

section \<open>Admin panel of the leaderboard (admin.js)\<close>

text \<open>
  The panel is one JavaScript module: five module variables, a table of DOM elements and
  a set of event handlers. The module variables and the parts of the browser the handlers
  act on (the DOM properties they write, the sessionStorage item, the live timers, the
  requests sent, the confirm dialogs shown) are the fields of one state record; every
  handler is a function on that record.

  An \<open>async\<close> handler runs synchronously up to its first \<open>await\<close> and is resumed
  when the response arrives, and other handlers may run in between. It is therefore
  modelled as two functions: the part before the \<open>await\<close>, which says whether the
  handler returned or is waiting, and the part run on the response. \<open>console\<close> output
  is not modelled. Strings hold the UTF-8 bytes of the source's literals.
\<close>

subsection \<open>Configuration\<close>

definition API_BASE_URL :: string where
  "API_BASE_URL = ''https://zyro-leaderboard-backend.vercel.app''"

definition STATUS_REFRESH_INTERVAL :: nat where
  "STATUS_REFRESH_INTERVAL = 30000"

definition TIMER_UPDATE_INTERVAL :: nat where
  "TIMER_UPDATE_INTERVAL = 1000"

subsection \<open>Browser values\<close>

text \<open>A timer of the browser: its handle, the callback, the delay, and whether it repeats.\<close>

datatype callback = FetchStatusCb | UpdateCountdownCb | HideControlMessageCb

datatype timer = Timer (timer_id: nat) (timer_cb: callback) (timer_delay: nat) (timer_repeat: bool)

datatype http_method = GET | POST

text \<open>
  A call of \<open>fetch\<close>: method, URL, the value of the X-API-Key header, and the
  \<open>durationDays\<close> of the JSON body when there is one. The Content-Type header of the
  start request is not recorded.
\<close>

datatype request = Request http_method string string "nat option"

text \<open>
  What a call of \<open>fetch\<close> followed by \<open>response.json()\<close> can give: a rejected
  promise, or a response with its status and its body. The body is \<open>None\<close> where reading
  it throws: \<open>json()\<close> rejects, or gives \<open>null\<close>, whose properties cannot be read. A field
  is read by its truthiness where the code tests it (\<open>success\<close>, \<open>isActive\<close>,
  \<open>isEnded\<close>), and is \<open>None\<close> where it is absent or null; times are strings.
\<close>

datatype 'b response = NetworkError | Response nat "'b option"

definition ok :: "nat \<Rightarrow> bool" where
  "ok status = (200 \<le> status \<and> status \<le> 299)"

text \<open>The \<open>competition\<close> object of a status body, as the server sends it.\<close>

datatype competition_data =
  CompetitionData bool bool "string option" "string option" "int option" "int option"

text \<open>
  A status body \<open>{success, competition}\<close> and an action body \<open>{success, message}\<close>,
  whose message is absent, null or a string.
\<close>

datatype status_body = StatusBody bool "competition_data option"

datatype message = Undefined | Null | Text string

datatype action_body = ActionBody bool message

text \<open>
  The two functions of \<open>Date\<close> the panel calls: \<open>new Date(s).getTime()\<close>, which is
  NaN (\<open>None\<close>) for a string that is no date, and \<open>toLocaleString\<close>.
\<close>

record browser =
  Date_getTime :: "string \<Rightarrow> int option"
  Date_toLocaleString :: "string \<Rightarrow> string"

subsection \<open>State\<close>

record competition =
  isActive :: bool
  isEnded :: bool
  startTime :: "string option"
  endTime :: "string option"
  remainingSeconds :: int
  durationDays :: int

record elements =
  loginSection_hidden :: bool
  adminControls_hidden :: bool
  adminPassword_value :: string
  loginError_text :: string
  loginError_show :: bool
  statusValue_text :: string
  statusValue_class :: "string list"
  startTime_text :: string
  endTime_text :: string
  countdown_text :: string
  countdown_ending :: bool
  adminDays_text :: string
  adminHours_text :: string
  adminMinutes_text :: string
  adminSeconds_text :: string
  start7DaysBtn_disabled :: bool
  start14DaysBtn_disabled :: bool
  start30DaysBtn_disabled :: bool
  resetBtn_disabled :: bool
  controlMessage_text :: string
  controlMessage_class :: "string list"

record state =
  isAuthenticated :: bool
  adminApiKey :: string
  competitionState :: competition
  statusRefreshInterval :: "nat option"
  countdownInterval :: "nat option"
  elements :: elements
  sessionStorage :: "string option"
  timers :: "timer list"
  lastTimerId :: nat
  requests :: "request list"
  dialogs :: "string list"

text \<open>The module variables as the module initialises them, over a given page.\<close>

definition initial_state :: "elements \<Rightarrow> string option \<Rightarrow> state" where
  "initial_state page stored =
     \<lparr> isAuthenticated = False,
       adminApiKey = [],
       competitionState = \<lparr> isActive = False, isEnded = False, startTime = None,
         endTime = None, remainingSeconds = 0, durationDays = 0 \<rparr>,
       statusRefreshInterval = None,
       countdownInterval = None,
       elements = page,
       sessionStorage = stored,
       timers = [],
       lastTimerId = 0,
       requests = [],
       dialogs = [] \<rparr>"

text \<open>An async handler either returned or is waiting for a response.\<close>

datatype outcome = Returned state | Awaiting state

fun state_of :: "outcome \<Rightarrow> state" where
  "state_of (Returned s) = s"
| "state_of (Awaiting s) = s"

subsection \<open>Browser primitives\<close>

text \<open>
  \<open>setInterval\<close> and \<open>setTimeout\<close> register a timer under a fresh positive handle
  and do not run the callback; \<open>clearInterval\<close> removes the timer of a handle.
\<close>

definition setInterval :: "callback \<Rightarrow> nat \<Rightarrow> state \<Rightarrow> nat \<times> state" where
  "setInterval cb delay s =
     (let h = Suc (lastTimerId s)
      in (h, s\<lparr>lastTimerId := h, timers := timers s @ [Timer h cb delay True]\<rparr>))"

definition setTimeout :: "callback \<Rightarrow> nat \<Rightarrow> state \<Rightarrow> state" where
  "setTimeout cb delay s =
     (let h = Suc (lastTimerId s)
      in s\<lparr>lastTimerId := h, timers := timers s @ [Timer h cb delay False]\<rparr>)"

definition clearInterval :: "nat \<Rightarrow> state \<Rightarrow> state" where
  "clearInterval h s = s\<lparr>timers := filter (\<lambda>t. timer_id t \<noteq> h) (timers s)\<rparr>"

definition fetch :: "request \<Rightarrow> state \<Rightarrow> state" where
  "fetch r s = s\<lparr>requests := requests s @ [r]\<rparr>"

definition confirm :: "string \<Rightarrow> state \<Rightarrow> state" where
  "confirm message s = s\<lparr>dialogs := dialogs s @ [message]\<rparr>"

text \<open>
  Truthiness of a string that may be null: the empty string is falsy. A timer handle is
  truthy when it is neither null nor 0.
\<close>

fun truthy_string :: "string option \<Rightarrow> bool" where
  "truthy_string None = False"
| "truthy_string (Some v) = (v \<noteq> [])"

text \<open>
  \<open>String.prototype.trim\<close> removes, at both ends, the white space and the line terminators
  of the language: U+0009 to U+000D, U+0020, U+00A0, U+1680, U+2000 to U+200A, U+2028,
  U+2029, U+202F, U+205F, U+3000 and U+FEFF, here in UTF-8.
\<close>

definition white_space :: "string list" where
  "white_space =
     [[CHR 0x09], [CHR 0x0A], [CHR 0x0B], [CHR 0x0C], [CHR 0x0D], [CHR 0x20],
      [CHR 0xC2, CHR 0xA0],
      [CHR 0xE1, CHR 0x9A, CHR 0x80],
      [CHR 0xE2, CHR 0x80, CHR 0x80], [CHR 0xE2, CHR 0x80, CHR 0x81],
      [CHR 0xE2, CHR 0x80, CHR 0x82], [CHR 0xE2, CHR 0x80, CHR 0x83],
      [CHR 0xE2, CHR 0x80, CHR 0x84], [CHR 0xE2, CHR 0x80, CHR 0x85],
      [CHR 0xE2, CHR 0x80, CHR 0x86], [CHR 0xE2, CHR 0x80, CHR 0x87],
      [CHR 0xE2, CHR 0x80, CHR 0x88], [CHR 0xE2, CHR 0x80, CHR 0x89],
      [CHR 0xE2, CHR 0x80, CHR 0x8A],
      [CHR 0xE2, CHR 0x80, CHR 0xA8], [CHR 0xE2, CHR 0x80, CHR 0xA9],
      [CHR 0xE2, CHR 0x80, CHR 0xAF],
      [CHR 0xE2, CHR 0x81, CHR 0x9F],
      [CHR 0xE3, CHR 0x80, CHR 0x80],
      [CHR 0xEF, CHR 0xBB, CHR 0xBF]]"

definition starts_with :: "string \<Rightarrow> string \<Rightarrow> bool" where
  "starts_with v w = (w \<noteq> [] \<and> take (length w) v = w)"

function strip_start :: "string list \<Rightarrow> string \<Rightarrow> string" where
  "strip_start ws v =
     (case find (starts_with v) ws of
        None \<Rightarrow> v
      | Some w \<Rightarrow> strip_start ws (drop (length w) v))"
  by pat_completeness auto
termination
proof (relation "measure (\<lambda>(ws, v). length v)")
  show "wf (measure (\<lambda>(ws, v). length v))" by simp
next
  fix ws :: "string list" and v w :: string
  assume "find (starts_with v) ws = Some w"
  then have "starts_with v w" by (auto simp: find_Some_iff)
  then have "w \<noteq> []" "take (length w) v = w" by (simp_all add: starts_with_def)
  then have "v \<noteq> []" by auto
  with \<open>w \<noteq> []\<close> show "((ws, drop (length w) v), (ws, v)) \<in> measure (\<lambda>(ws, v). length v)"
    by simp
qed

declare strip_start.simps [simp del]

definition trim :: "string \<Rightarrow> string" where
  "trim v = rev (strip_start (map rev white_space) (rev (strip_start white_space v)))"

text \<open>\<open>String(n)\<close> of an integral number, and \<open>padStart\<close>.\<close>

definition digit_char :: "nat \<Rightarrow> char" where
  "digit_char d = char_of (48 + d)"

function String_nat :: "nat \<Rightarrow> string" where
  "String_nat n = (if n < 10 then [digit_char n] else String_nat (n div 10) @ [digit_char (n mod 10)])"
  by pat_completeness auto
termination
  by (relation "measure id") auto

declare String_nat.simps [simp del]

definition String_int :: "int \<Rightarrow> string" where
  "String_int i = (if i < 0 then CHR ''-'' # String_nat (nat (- i)) else String_nat (nat i))"

definition padStart :: "nat \<Rightarrow> string \<Rightarrow> string \<Rightarrow> string" where
  "padStart targetLength padString v =
     (if targetLength \<le> length v \<or> padString = [] then v
      else take (targetLength - length v) (concat (replicate (targetLength - length v) padString)) @ v)"

text \<open>
  The numbers of the countdown are integral (a difference of two counts of milliseconds, and
  quotients under \<open>Math.floor\<close>), and exact as doubles below \<open>2^53\<close>, so they are
  \<open>int\<close>: \<open>Math.floor (a / b)\<close> is \<open>a div b\<close>, and the remainder operator \<open>%\<close>
  takes the sign of the dividend.
\<close>

definition js_rem :: "int \<Rightarrow> int \<Rightarrow> int" where
  "js_rem a b = (if a < 0 then - ((- a) mod \<bar>b\<bar>) else a mod \<bar>b\<bar>)"

text \<open>The literals of the source that are not ASCII, as UTF-8.\<close>

definition em_dash :: string where
  "em_dash = [CHR 0xE2, CHR 0x80, CHR 0x94]"

definition check_mark :: string where
  "check_mark = [CHR 0xE2, CHR 0x9C, CHR 0x85]"

definition cross_mark :: string where
  "cross_mark = [CHR 0xE2, CHR 0x9D, CHR 0x8C]"

definition warning_sign :: string where
  "warning_sign = [CHR 0xE2, CHR 0x9A, CHR 0xA0, CHR 0xEF, CHR 0xB8, CHR 0x8F]"

subsection \<open>UI helpers\<close>

definition showLoginSection :: "state \<Rightarrow> state" where
  "showLoginSection s =
     s\<lparr>elements := (elements s)\<lparr>loginSection_hidden := False, adminControls_hidden := True\<rparr>\<rparr>"

definition showAdminControls :: "state \<Rightarrow> state" where
  "showAdminControls s =
     s\<lparr>elements := (elements s)\<lparr>loginSection_hidden := True, adminControls_hidden := False,
       loginError_show := False\<rparr>\<rparr>"

definition showLoginError :: "string \<Rightarrow> state \<Rightarrow> state" where
  "showLoginError message s =
     s\<lparr>elements := (elements s)\<lparr>loginError_text := message, loginError_show := True\<rparr>\<rparr>"

text \<open>The message hides itself after five seconds, through a timeout.\<close>

definition showControlMessage :: "string \<Rightarrow> string \<Rightarrow> state \<Rightarrow> state" where
  "showControlMessage message type s =
     setTimeout HideControlMessageCb 5000
       (s\<lparr>elements := (elements s)\<lparr>controlMessage_text := message,
          controlMessage_class := [''message'', ''show'', type]\<rparr>\<rparr>)"

text \<open>The callback of that timeout.\<close>

definition hideControlMessage :: "state \<Rightarrow> state" where
  "hideControlMessage s =
     s\<lparr>elements := (elements s)\<lparr>controlMessage_class :=
       filter (\<lambda>c. c \<noteq> ''show'') (controlMessage_class (elements s))\<rparr>\<rparr>"

definition formatDateTime :: "browser \<Rightarrow> string option \<Rightarrow> string" where
  "formatDateTime b isoString =
     (case isoString of
        None \<Rightarrow> em_dash
      | Some v \<Rightarrow> if v = [] then em_dash else Date_toLocaleString b v)"

subsection \<open>Timers\<close>

definition stopStatusRefresh :: "state \<Rightarrow> state" where
  "stopStatusRefresh s =
     (case statusRefreshInterval s of
        None \<Rightarrow> s
      | Some h \<Rightarrow> if h \<noteq> 0 then (clearInterval h s)\<lparr>statusRefreshInterval := None\<rparr> else s)"

definition stopCountdown :: "state \<Rightarrow> state" where
  "stopCountdown s =
     (case countdownInterval s of
        None \<Rightarrow> s
      | Some h \<Rightarrow> if h \<noteq> 0 then (clearInterval h s)\<lparr>countdownInterval := None\<rparr> else s)"

definition startStatusRefresh :: "state \<Rightarrow> state" where
  "startStatusRefresh s =
     (case setInterval FetchStatusCb STATUS_REFRESH_INTERVAL (stopStatusRefresh s) of
        (h, s') \<Rightarrow> s'\<lparr>statusRefreshInterval := Some h\<rparr>)"

subsection \<open>Logout\<close>

definition handleLogout :: "state \<Rightarrow> state" where
  "handleLogout s =
     (let s1 = s\<lparr>isAuthenticated := False, adminApiKey := [], sessionStorage := None\<rparr>;
          s2 = showLoginSection (stopCountdown (stopStatusRefresh s1))
      in s2\<lparr>elements := (elements s2)\<lparr>adminPassword_value := []\<rparr>\<rparr>)"

subsection \<open>Status fetch: the part before the await\<close>

definition status_request :: "state \<Rightarrow> request" where
  "status_request s = Request GET (API_BASE_URL @ ''/api/admin/status'') (adminApiKey s) None"

definition fetchStatus :: "state \<Rightarrow> outcome" where
  "fetchStatus s =
     (if \<not> isAuthenticated s then Returned s
      else Awaiting (fetch (status_request s) s))"

subsection \<open>Display of the status and of the buttons\<close>

definition updateStatusDisplay :: "browser \<Rightarrow> state \<Rightarrow> state" where
  "updateStatusDisplay b s =
     (let c = competitionState s;
          badge =
            (if isEnded c then (''Ended'', [''status-badge'', ''ended''])
             else if isActive c then
               (''Active'' @
                  (if durationDays c = 7 then '' (7 Days)''
                   else if durationDays c = 14 then '' (14 Days)''
                   else if durationDays c = 30 then '' (30 Days)''
                   else []),
                [''status-badge'', ''active''])
             else (''Inactive'', [''status-badge'', ''inactive'']))
      in s\<lparr>elements := (elements s)\<lparr>
           statusValue_text := fst badge,
           statusValue_class := snd badge,
           startTime_text :=
             (if truthy_string (startTime c) then formatDateTime b (startTime c) else em_dash),
           endTime_text :=
             (if truthy_string (endTime c) then formatDateTime b (endTime c) else em_dash)\<rparr>\<rparr>)"

definition updateButtonStates :: "state \<Rightarrow> state" where
  "updateButtonStates s =
     (let c = competitionState s;
          isCompetitionActive = (isActive c \<and> \<not> isEnded c)
      in s\<lparr>elements := (elements s)\<lparr>
           start7DaysBtn_disabled := isCompetitionActive,
           start14DaysBtn_disabled := isCompetitionActive,
           start30DaysBtn_disabled := isCompetitionActive,
           resetBtn_disabled := (\<not> isActive c \<and> \<not> isEnded c)\<rparr>\<rparr>)"

subsection \<open>Countdown\<close>

text \<open>
  The four fields of the countdown for a distance in milliseconds; \<open>None\<close> is NaN, the
  distance to an end time that is no date, and every field computed from it is NaN.
\<close>

definition days_of :: "int \<Rightarrow> int" where
  "days_of distance = distance div (1000 * 60 * 60 * 24)"

definition hours_of :: "int \<Rightarrow> int" where
  "hours_of distance = js_rem distance (1000 * 60 * 60 * 24) div (1000 * 60 * 60)"

definition minutes_of :: "int \<Rightarrow> int" where
  "minutes_of distance = js_rem distance (1000 * 60 * 60) div (1000 * 60)"

definition seconds_of :: "int \<Rightarrow> int" where
  "seconds_of distance = js_rem distance (1000 * 60) div 1000"

definition String_number :: "int option \<Rightarrow> string" where
  "String_number v = (case v of None \<Rightarrow> ''NaN'' | Some i \<Rightarrow> String_int i)"

definition updateCountdown :: "browser \<Rightarrow> int \<Rightarrow> state \<Rightarrow> state" where
  "updateCountdown b now s =
     (let c = competitionState s in
      if \<not> isActive c \<or> \<not> truthy_string (endTime c) then
        s\<lparr>elements := (elements s)\<lparr>countdown_text := em_dash\<rparr>\<rparr>
      else
        let distance =
              (case endTime c of
                 None \<Rightarrow> None
               | Some e \<Rightarrow> map_option (\<lambda>t. t - now) (Date_getTime b e)) in
        if (case distance of None \<Rightarrow> False | Some d \<Rightarrow> d < 0) then
          state_of (fetchStatus (stopCountdown
            (s\<lparr>elements := (elements s)\<lparr>adminDays_text := ''00'', adminHours_text := ''00'',
               adminMinutes_text := ''00'', adminSeconds_text := ''00''\<rparr>\<rparr>)))
        else
          let days = map_option days_of distance;
              hours = map_option hours_of distance;
              minutes = map_option minutes_of distance;
              seconds = map_option seconds_of distance
          in s\<lparr>elements := (elements s)\<lparr>
               adminDays_text := padStart 2 ''0'' (String_number days),
               adminHours_text := padStart 2 ''0'' (String_number hours),
               adminMinutes_text := padStart 2 ''0'' (String_number minutes),
               adminSeconds_text := padStart 2 ''0'' (String_number seconds),
               countdown_ending :=
                 (case (days, hours) of
                    (Some d, Some h) \<Rightarrow> d = 0 \<and> h < 24
                  | _ \<Rightarrow> False)\<rparr>\<rparr>)"

definition startCountdown :: "browser \<Rightarrow> int \<Rightarrow> state \<Rightarrow> state" where
  "startCountdown b now s =
     (case setInterval UpdateCountdownCb TIMER_UPDATE_INTERVAL
             (updateCountdown b now (stopCountdown s)) of
        (h, s') \<Rightarrow> s'\<lparr>countdownInterval := Some h\<rparr>)"

subsection \<open>Status fetch: the part run on the response\<close>

definition fetchStatus_response :: "browser \<Rightarrow> int \<Rightarrow> status_body response \<Rightarrow> state \<Rightarrow> state" where
  "fetchStatus_response b now r s =
     (case r of
        NetworkError \<Rightarrow> s
      | Response status body \<Rightarrow>
          if \<not> ok status then
            (if status = 401 \<or> status = 403 then handleLogout s else s)
          else
            (case body of
               None \<Rightarrow> s
             | Some (StatusBody success None) \<Rightarrow> s
             | Some (StatusBody success (Some (CompetitionData act ended st en rem dur))) \<Rightarrow>
                 if \<not> success then s
                 else
                   let s1 = s\<lparr>competitionState :=
                              \<lparr> isActive = act, isEnded = ended, startTime = st, endTime = en,
                                remainingSeconds = (case rem of None \<Rightarrow> 0 | Some n \<Rightarrow> n),
                                durationDays = (case dur of None \<Rightarrow> 0 | Some n \<Rightarrow> n) \<rparr>\<rparr>;
                       s2 = updateStatusDisplay b s1;
                       s3 = (if isActive (competitionState s2) \<and> \<not> isEnded (competitionState s2)
                             then startCountdown b now s2 else stopCountdown s2)
                   in updateButtonStates s3))"

subsection \<open>Login\<close>

definition handleLogin :: "state \<Rightarrow> outcome" where
  "handleLogin s =
     (let password = trim (adminPassword_value (elements s)) in
      if password = [] then Returned (showLoginError ''Please enter a password'' s)
      else
        let s1 = s\<lparr>adminApiKey := password\<rparr>
        in Awaiting (fetch (status_request s1) s1))"

definition handleLogin_response :: "unit response \<Rightarrow> state \<Rightarrow> state" where
  "handleLogin_response r s =
     (case r of
        NetworkError \<Rightarrow> showLoginError ''Connection error. Is the backend running?'' s
      | Response status body \<Rightarrow>
          if ok status then
            startStatusRefresh (state_of (fetchStatus (showAdminControls
              (s\<lparr>isAuthenticated := True, sessionStorage := Some (adminApiKey s)\<rparr>))))
          else if status = 401 \<or> status = 403 then showLoginError ''Invalid admin password'' s
          else showLoginError ''Authentication failed. Please try again.'' s)"

definition verifyAuthentication :: "state \<Rightarrow> outcome" where
  "verifyAuthentication s = Awaiting (fetch (status_request s) s)"

definition verifyAuthentication_response :: "unit response \<Rightarrow> state \<Rightarrow> state" where
  "verifyAuthentication_response r s =
     (case r of
        NetworkError \<Rightarrow> s
      | Response status body \<Rightarrow>
          if ok status then
            startStatusRefresh (state_of (fetchStatus (showAdminControls
              (s\<lparr>isAuthenticated := True\<rparr>))))
          else s\<lparr>sessionStorage := None, adminApiKey := []\<rparr>)"

definition init :: "state \<Rightarrow> state" where
  "init s =
     (case sessionStorage s of
        None \<Rightarrow> s
      | Some savedKey \<Rightarrow>
          if savedKey = [] then s
          else state_of (verifyAuthentication (s\<lparr>adminApiKey := savedKey\<rparr>)))"

subsection \<open>Competition controls\<close>

definition durationText :: "nat \<Rightarrow> string" where
  "durationText d =
     (if d = 7 then ''1 week''
      else if d = 14 then ''2 weeks''
      else if d = 30 then ''1 month''
      else String_nat d @ '' days'')"

definition start_prompt :: "nat \<Rightarrow> string" where
  "start_prompt d =
     ''Start a new '' @ durationText d @ '' competition?'' @ [CHR 0x0A, CHR 0x0A] @
     ''This will create a new competition timer for '' @ String_nat d @ '' days.''"

definition handleStartCompetition :: "nat \<Rightarrow> bool \<Rightarrow> state \<Rightarrow> outcome" where
  "handleStartCompetition d confirmed s =
     (if \<not> isAuthenticated s then Returned s
      else
        let s1 = confirm (start_prompt d) s in
        if \<not> confirmed then Returned s1
        else
          let s2 = s1\<lparr>elements := (elements s1)\<lparr>start7DaysBtn_disabled := True,
                     start14DaysBtn_disabled := True, start30DaysBtn_disabled := True\<rparr>\<rparr>;
              s3 = showControlMessage
                     (''Starting '' @ durationText d @ '' competition...'') ''info'' s2
          in Awaiting (fetch (Request POST (API_BASE_URL @ ''/api/admin/start'') (adminApiKey s3)
                                (Some d)) s3))"

fun message_text :: "message \<Rightarrow> string" where
  "message_text Undefined = ''undefined''"
| "message_text Null = ''null''"
| "message_text (Text v) = v"

definition handleStartCompetition_response :: "nat \<Rightarrow> action_body response \<Rightarrow> state \<Rightarrow> state" where
  "handleStartCompetition_response d r s =
     (case r of
        Response status (Some (ActionBody success message)) \<Rightarrow>
          if success then
            state_of (fetchStatus (showControlMessage
              (check_mark @ '' '' @ durationText d @ '' competition started successfully!'')
              ''success'' s))
          else
            updateButtonStates (showControlMessage (cross_mark @ '' '' @ message_text message) ''error'' s)
      | _ \<Rightarrow>
          updateButtonStates (showControlMessage
            (cross_mark @ '' Failed to start competition. Check console.'') ''error'' s))"

definition reset_prompt :: string where
  "reset_prompt =
     warning_sign @ '' WARNING: Reset the competition?'' @ [CHR 0x0A, CHR 0x0A] @
     ''This will:'' @ [CHR 0x0A] @
     ''- Stop the current competition'' @ [CHR 0x0A] @
     ''- Clear all timer data'' @ [CHR 0x0A] @
     ''- Reset the leaderboard'' @ [CHR 0x0A, CHR 0x0A] @
     ''Are you sure?''"

definition handleResetCompetition :: "bool \<Rightarrow> state \<Rightarrow> outcome" where
  "handleResetCompetition confirmed s =
     (if \<not> isAuthenticated s then Returned s
      else
        let s1 = confirm reset_prompt s in
        if \<not> confirmed then Returned s1
        else
          let s2 = s1\<lparr>elements := (elements s1)\<lparr>resetBtn_disabled := True\<rparr>\<rparr>;
              s3 = showControlMessage ''Resetting competition...'' ''info'' s2
          in Awaiting (fetch (Request POST (API_BASE_URL @ ''/api/admin/reset'') (adminApiKey s3)
                                None) s3))"

definition handleResetCompetition_response :: "action_body response \<Rightarrow> state \<Rightarrow> state" where
  "handleResetCompetition_response r s =
     (let s1 =
        (case r of
           Response status (Some (ActionBody success message)) \<Rightarrow>
             if success then
               state_of (fetchStatus (showControlMessage
                 (check_mark @ '' Competition reset successfully!'') ''success'' s))
             else
               showControlMessage (cross_mark @ '' '' @ message_text message) ''error'' s
         | _ \<Rightarrow>
             showControlMessage (cross_mark @ '' Failed to reset competition. Check console.'')
               ''error'' s)
      in s1\<lparr>elements := (elements s1)\<lparr>resetBtn_disabled := False\<rparr>\<rparr>)"

text \<open>A handler run to its end, the response given: what the panel has done once it is over.\<close>

definition completed :: "outcome \<Rightarrow> (state \<Rightarrow> state) \<Rightarrow> state" where
  "completed out k = (case out of Returned s \<Rightarrow> s | Awaiting s \<Rightarrow> k s)"

subsection \<open>The panel as a transition system\<close>

text \<open>
  The events of the page: the user's actions, the responses to the requests in flight,
  the firing of a live timer and the unloading of the page. A response carries the time at
  which it arrives where the handler reads the clock. A timer fires only while it is live,
  and a timeout that has fired is live no more. Responses are not matched with the requests
  sent, so the runs of the model include every run of the page.
\<close>

datatype event =
    Submit string
  | LoginResponse "unit response"
  | VerifyResponse "unit response"
  | LogoutClick
  | StartClick nat bool
  | StartResponse nat "action_body response"
  | ResetClick bool
  | ResetResponse "action_body response"
  | StatusResponse int "status_body response"
  | PollTick
  | CountdownTick int
  | HideMessage nat
  | BeforeUnload

definition live :: "callback \<Rightarrow> state \<Rightarrow> timer list" where
  "live cb s = filter (\<lambda>t. timer_cb t = cb) (timers s)"

fun step :: "browser \<Rightarrow> state \<Rightarrow> event \<Rightarrow> state" where
  "step b s (Submit v) =
     state_of (handleLogin (s\<lparr>elements := (elements s)\<lparr>adminPassword_value := v\<rparr>\<rparr>))"
| "step b s (LoginResponse r) = handleLogin_response r s"
| "step b s (VerifyResponse r) = verifyAuthentication_response r s"
| "step b s LogoutClick = handleLogout s"
| "step b s (StartClick d confirmed) = state_of (handleStartCompetition d confirmed s)"
| "step b s (StartResponse d r) = handleStartCompetition_response d r s"
| "step b s (ResetClick confirmed) = state_of (handleResetCompetition confirmed s)"
| "step b s (ResetResponse r) = handleResetCompetition_response r s"
| "step b s (StatusResponse now r) = fetchStatus_response b now r s"
| "step b s PollTick = (if live FetchStatusCb s = [] then s else state_of (fetchStatus s))"
| "step b s (CountdownTick now) =
     (if live UpdateCountdownCb s = [] then s else updateCountdown b now s)"
| "step b s (HideMessage h) =
     (if Timer h HideControlMessageCb 5000 False \<in> set (timers s)
      then hideControlMessage (clearInterval h s) else s)"
| "step b s BeforeUnload = stopCountdown (stopStatusRefresh s)"

definition run :: "browser \<Rightarrow> state \<Rightarrow> event list \<Rightarrow> state" where
  "run b s evs = foldl (step b) s evs"

definition boot :: "elements \<Rightarrow> string option \<Rightarrow> state" where
  "boot page stored = init (initial_state page stored)"

subsection \<open>Notions used by the properties\<close>

text \<open>
  The timers are consistent when handles are positive, never reused and not beyond the last
  one given out, and when the live poll timers and the live countdown timers are exactly
  the ones the two module variables hold.
\<close>

definition timer_inv :: "state \<Rightarrow> bool" where
  "timer_inv s =
     (distinct (map timer_id (timers s)) \<and>
      list_all (\<lambda>t. 0 < timer_id t \<and> timer_id t \<le> lastTimerId s) (timers s) \<and>
      live FetchStatusCb s =
        (case statusRefreshInterval s of
           None \<Rightarrow> []
         | Some h \<Rightarrow> [Timer h FetchStatusCb STATUS_REFRESH_INTERVAL True]) \<and>
      live UpdateCountdownCb s =
        (case countdownInterval s of
           None \<Rightarrow> []
         | Some h \<Rightarrow> [Timer h UpdateCountdownCb TIMER_UPDATE_INTERVAL True]))"

text \<open>The number a displayed field reads as, and a number written in decimal at width 2.\<close>

definition decimal_value :: "string \<Rightarrow> nat" where
  "decimal_value v = foldl (\<lambda>a c. 10 * a + (of_char c - 48)) 0 v"

definition zero_padded2 :: "nat \<Rightarrow> string" where
  "zero_padded2 n = replicate (2 - length (String_nat n)) CHR ''0'' @ String_nat n"

text \<open>The events whose handlers write the \<open>disabled\<close> property of the reset button.\<close>

fun writes_reset_button :: "event \<Rightarrow> bool" where
  "writes_reset_button (StatusResponse now r) = True"
| "writes_reset_button (StartResponse d r) = True"
| "writes_reset_button (ResetClick confirmed) = True"
| "writes_reset_button (ResetResponse r) = True"
| "writes_reset_button ev = False"


text \<open>A page, a browser and a session to run the panel on.\<close>

definition sample_page :: elements where
  "sample_page =
     \<lparr> loginSection_hidden = False, adminControls_hidden = True, adminPassword_value = [],
       loginError_text = [], loginError_show = False,
       statusValue_text = [], statusValue_class = [''status-badge''],
       startTime_text = [], endTime_text = [], countdown_text = [], countdown_ending = False,
       adminDays_text = ''00'', adminHours_text = ''00'', adminMinutes_text = ''00'',
       adminSeconds_text = ''00'',
       start7DaysBtn_disabled = False, start14DaysBtn_disabled = False,
       start30DaysBtn_disabled = False, resetBtn_disabled = False,
       controlMessage_text = [], controlMessage_class = [''message''] \<rparr>"

definition sample_browser :: browser where
  "sample_browser =
     \<lparr> Date_getTime = (\<lambda>v. if v = ''2030-01-01T00:00:00.000Z'' then Some 1893456000000 else None),
       Date_toLocaleString = (\<lambda>v. v) \<rparr>"

definition logged_in :: state where
  "logged_in =
     run sample_browser (boot sample_page None) [Submit ''secret'', LoginResponse (Response 200 None)]"

text \<open>
  A status response announcing a seven day competition that ends on 1 January 2030; the
  session that receives it 3661 seconds before the end; and the same response arriving
  after the user has logged out, the request having been sent before.
\<close>

definition sample_status :: "status_body response" where
  "sample_status =
     Response 200 (Some (StatusBody True (Some (CompetitionData True False
       (Some ''2029-12-25T00:00:00.000Z'') (Some ''2030-01-01T00:00:00.000Z'') None (Some 7)))))"

definition counting :: state where
  "counting = step sample_browser logged_in (StatusResponse 1893452339000 sample_status)"

definition ticking_after_logout :: state where
  "ticking_after_logout =
     run sample_browser (boot sample_page None)
       [Submit ''secret'', LoginResponse (Response 200 None), LogoutClick,
        StatusResponse 1893452339000 sample_status]"





text \<open>The sample session after a tick of the countdown one millisecond past the end.\<close>

definition expired_once :: state where
  "expired_once = step sample_browser counting (CountdownTick 1893456000001)"

text \<open>The session with a poll under way and a confirmed reset waiting for its response.\<close>

definition reset_pending :: state where
  "reset_pending = run sample_browser counting [PollTick, ResetClick True]"

section \<open>Properties\<close>

subsection \<open>What each function leaves alone\<close>

lemma stopCountdown_frame [simp]:
  "competitionState (stopCountdown s) = competitionState s"
  "isAuthenticated (stopCountdown s) = isAuthenticated s"
  "adminApiKey (stopCountdown s) = adminApiKey s"
  "sessionStorage (stopCountdown s) = sessionStorage s"
  "elements (stopCountdown s) = elements s"
  "requests (stopCountdown s) = requests s"
  "dialogs (stopCountdown s) = dialogs s"
  "statusRefreshInterval (stopCountdown s) = statusRefreshInterval s"
  "lastTimerId (stopCountdown s) = lastTimerId s"
  by (simp_all add: stopCountdown_def clearInterval_def split: option.splits)

lemma stopStatusRefresh_frame [simp]:
  "competitionState (stopStatusRefresh s) = competitionState s"
  "isAuthenticated (stopStatusRefresh s) = isAuthenticated s"
  "adminApiKey (stopStatusRefresh s) = adminApiKey s"
  "sessionStorage (stopStatusRefresh s) = sessionStorage s"
  "elements (stopStatusRefresh s) = elements s"
  "requests (stopStatusRefresh s) = requests s"
  "dialogs (stopStatusRefresh s) = dialogs s"
  "countdownInterval (stopStatusRefresh s) = countdownInterval s"
  "lastTimerId (stopStatusRefresh s) = lastTimerId s"
  by (simp_all add: stopStatusRefresh_def clearInterval_def split: option.splits)

lemma fetchStatus_frame [simp]:
  "competitionState (state_of (fetchStatus s)) = competitionState s"
  "isAuthenticated (state_of (fetchStatus s)) = isAuthenticated s"
  "adminApiKey (state_of (fetchStatus s)) = adminApiKey s"
  "sessionStorage (state_of (fetchStatus s)) = sessionStorage s"
  "elements (state_of (fetchStatus s)) = elements s"
  "timers (state_of (fetchStatus s)) = timers s"
  "dialogs (state_of (fetchStatus s)) = dialogs s"
  "statusRefreshInterval (state_of (fetchStatus s)) = statusRefreshInterval s"
  "countdownInterval (state_of (fetchStatus s)) = countdownInterval s"
  "lastTimerId (state_of (fetchStatus s)) = lastTimerId s"
  by (simp_all add: fetchStatus_def fetch_def)

lemma fetchStatus_requests:
  "requests (state_of (fetchStatus s)) =
     requests s @ (if isAuthenticated s then [status_request s] else [])"
  by (simp add: fetchStatus_def fetch_def)

lemma updateCountdown_frame [simp]:
  "competitionState (updateCountdown b now s) = competitionState s"
  "isAuthenticated (updateCountdown b now s) = isAuthenticated s"
  "adminApiKey (updateCountdown b now s) = adminApiKey s"
  "sessionStorage (updateCountdown b now s) = sessionStorage s"
  "dialogs (updateCountdown b now s) = dialogs s"
  "statusRefreshInterval (updateCountdown b now s) = statusRefreshInterval s"
  "lastTimerId (updateCountdown b now s) = lastTimerId s"
  by (simp_all add: updateCountdown_def Let_def split: option.splits)

lemma startCountdown_frame [simp]:
  "competitionState (startCountdown b now s) = competitionState s"
  "isAuthenticated (startCountdown b now s) = isAuthenticated s"
  "adminApiKey (startCountdown b now s) = adminApiKey s"
  "sessionStorage (startCountdown b now s) = sessionStorage s"
  "dialogs (startCountdown b now s) = dialogs s"
  "statusRefreshInterval (startCountdown b now s) = statusRefreshInterval s"
  by (simp_all add: startCountdown_def setInterval_def Let_def)

lemma showControlMessage_frame [simp]:
  "competitionState (showControlMessage m ty s) = competitionState s"
  "isAuthenticated (showControlMessage m ty s) = isAuthenticated s"
  "adminApiKey (showControlMessage m ty s) = adminApiKey s"
  "sessionStorage (showControlMessage m ty s) = sessionStorage s"
  "requests (showControlMessage m ty s) = requests s"
  "dialogs (showControlMessage m ty s) = dialogs s"
  "statusRefreshInterval (showControlMessage m ty s) = statusRefreshInterval s"
  "countdownInterval (showControlMessage m ty s) = countdownInterval s"
  by (simp_all add: showControlMessage_def setTimeout_def Let_def)

lemma updateButtonStates_frame [simp]:
  "competitionState (updateButtonStates s) = competitionState s"
  "isAuthenticated (updateButtonStates s) = isAuthenticated s"
  "adminApiKey (updateButtonStates s) = adminApiKey s"
  "sessionStorage (updateButtonStates s) = sessionStorage s"
  "requests (updateButtonStates s) = requests s"
  "dialogs (updateButtonStates s) = dialogs s"
  "timers (updateButtonStates s) = timers s"
  "lastTimerId (updateButtonStates s) = lastTimerId s"
  "statusRefreshInterval (updateButtonStates s) = statusRefreshInterval s"
  "countdownInterval (updateButtonStates s) = countdownInterval s"
  by (simp_all add: updateButtonStates_def Let_def)

lemma updateButtonStates_buttons:
  "start7DaysBtn_disabled (elements (updateButtonStates s)) =
     (isActive (competitionState s) \<and> \<not> isEnded (competitionState s))"
  "start14DaysBtn_disabled (elements (updateButtonStates s)) =
     (isActive (competitionState s) \<and> \<not> isEnded (competitionState s))"
  "start30DaysBtn_disabled (elements (updateButtonStates s)) =
     (isActive (competitionState s) \<and> \<not> isEnded (competitionState s))"
  "resetBtn_disabled (elements (updateButtonStates s)) =
     (\<not> isActive (competitionState s) \<and> \<not> isEnded (competitionState s))"
  by (simp_all add: updateButtonStates_def Let_def)

lemma updateStatusDisplay_frame [simp]:
  "competitionState (updateStatusDisplay b s) = competitionState s"
  by (simp add: updateStatusDisplay_def Let_def)

lemma trim_secret: "trim ''secret'' = ''secret''" "trim '' secret '' = ''secret''"
  by (simp_all add: trim_def strip_start.simps white_space_def starts_with_def)



text \<open>The sample session: logged in with the key \<open>secret\<close>, the poll timer running.\<close>

lemma logged_in_eq:
  "logged_in =
     (initial_state (sample_page\<lparr>adminPassword_value := ''secret'', loginSection_hidden := True,
         adminControls_hidden := False\<rparr>) (Some ''secret''))
       \<lparr>isAuthenticated := True, adminApiKey := ''secret'',
        statusRefreshInterval := Some 1,
        timers := [Timer 1 FetchStatusCb 30000 True],
        lastTimerId := 1,
        requests := [Request GET (API_BASE_URL @ ''/api/admin/status'') ''secret'' None,
                     Request GET (API_BASE_URL @ ''/api/admin/status'') ''secret'' None]\<rparr>"
  by (simp add: logged_in_def run_def boot_def init_def initial_state_def sample_page_def
      handleLogin_def handleLogin_response_def trim_secret fetch_def status_request_def
      ok_def showAdminControls_def fetchStatus_def startStatusRefresh_def stopStatusRefresh_def
      setInterval_def STATUS_REFRESH_INTERVAL_def Let_def)

subsection \<open>Consistency of the timers\<close>

lemma live_update [simp]:
  "live cb (s\<lparr>elements := e\<rparr>) = live cb s"
  "live cb (s\<lparr>requests := rs\<rparr>) = live cb s"
  "live cb (s\<lparr>dialogs := ds\<rparr>) = live cb s"
  "live cb (s\<lparr>isAuthenticated := a\<rparr>) = live cb s"
  "live cb (s\<lparr>adminApiKey := k\<rparr>) = live cb s"
  "live cb (s\<lparr>sessionStorage := st\<rparr>) = live cb s"
  "live cb (s\<lparr>competitionState := c\<rparr>) = live cb s"
  "live cb (s\<lparr>statusRefreshInterval := h\<rparr>) = live cb s"
  "live cb (s\<lparr>countdownInterval := h\<rparr>) = live cb s"
  "live cb (s\<lparr>lastTimerId := n\<rparr>) = live cb s"
  by (simp_all add: live_def)

lemma live_showControlMessage [simp]:
  "cb \<noteq> HideControlMessageCb \<Longrightarrow> live cb (showControlMessage m ty s) = live cb s"
  by (simp add: live_def showControlMessage_def setTimeout_def Let_def)

lemma live_fetchStatus [simp]: "live cb (state_of (fetchStatus s)) = live cb s"
  by (simp add: live_def)

lemma live_updateButtonStates [simp]: "live cb (updateButtonStates s) = live cb s"
  by (simp add: live_def)

lemma timer_inv_update [simp]:
  "timer_inv (s\<lparr>elements := e\<rparr>) = timer_inv s"
  "timer_inv (s\<lparr>requests := rs\<rparr>) = timer_inv s"
  "timer_inv (s\<lparr>dialogs := ds\<rparr>) = timer_inv s"
  "timer_inv (s\<lparr>isAuthenticated := a\<rparr>) = timer_inv s"
  "timer_inv (s\<lparr>adminApiKey := k\<rparr>) = timer_inv s"
  "timer_inv (s\<lparr>sessionStorage := st\<rparr>) = timer_inv s"
  "timer_inv (s\<lparr>competitionState := c\<rparr>) = timer_inv s"
  by (simp_all add: timer_inv_def)

lemma filter_single_mem:
  assumes "filter P xs = [y]"
  shows "y \<in> set xs"
proof -
  have "y \<in> set (filter P xs)" using assms by simp
  then show ?thesis by simp
qed

lemma filter_id_distinct:
  "distinct (map timer_id ts) \<Longrightarrow> t \<in> set ts \<Longrightarrow>
   filter (\<lambda>u. timer_id u \<noteq> timer_id t) ts = filter (\<lambda>u. u \<noteq> t) ts"
  by (rule filter_cong) (auto simp: distinct_map inj_on_def)

lemma clear_own:
  assumes "distinct (map timer_id ts)" "filter (\<lambda>t. timer_cb t = cb) ts = [Timer h cb d r]"
  shows "filter (\<lambda>t. timer_cb t = cb) (filter (\<lambda>t. timer_id t \<noteq> h) ts) = []"
proof -
  have mem: "Timer h cb d r \<in> set ts"
    using assms(2) by (rule filter_single_mem)
  have "filter (\<lambda>t. timer_id t \<noteq> h) ts = filter (\<lambda>u. u \<noteq> Timer h cb d r) ts"
    using filter_id_distinct [OF assms(1) mem] by simp
  then have "filter (\<lambda>t. timer_cb t = cb) (filter (\<lambda>t. timer_id t \<noteq> h) ts)
             = filter (\<lambda>u. u \<noteq> Timer h cb d r) (filter (\<lambda>t. timer_cb t = cb) ts)"
    by (simp add: conj_commute)
  then show ?thesis using assms(2) by simp
qed

lemma clear_other:
  assumes "distinct (map timer_id ts)" "Timer h cb d r \<in> set ts" "cb' \<noteq> cb"
  shows "filter (\<lambda>t. timer_cb t = cb') (filter (\<lambda>t. timer_id t \<noteq> h) ts)
         = filter (\<lambda>t. timer_cb t = cb') ts"
proof -
  have "filter (\<lambda>t. timer_id t \<noteq> h) ts = filter (\<lambda>u. u \<noteq> Timer h cb d r) ts"
    using filter_id_distinct [OF assms(1,2)] by simp
  then have "filter (\<lambda>t. timer_cb t = cb') (filter (\<lambda>t. timer_id t \<noteq> h) ts)
             = filter (\<lambda>u. timer_cb u = cb' \<and> u \<noteq> Timer h cb d r) ts"
    by (simp add: conj_commute)
  also have "\<dots> = filter (\<lambda>t. timer_cb t = cb') ts"
    using assms(3) by (intro filter_cong) auto
  finally show ?thesis .
qed

lemma distinct_filter_ids: "distinct (map timer_id ts) \<Longrightarrow> distinct (map timer_id (filter P ts))"
  by (simp add: distinct_map_filter)

lemma list_all_filter: "list_all P ts \<Longrightarrow> list_all P (filter Q ts)"
  by (simp add: list_all_iff)

text \<open>Clearing the timer of a handle that is live, in a consistent state.\<close>

lemma timer_inv_clear:
  assumes inv: "timer_inv s" and mem: "Timer h cb d r \<in> set (timers s)"
  shows "distinct (map timer_id (timers (clearInterval h s)))"
    and "list_all (\<lambda>t. 0 < timer_id t \<and> timer_id t \<le> lastTimerId s) (timers (clearInterval h s))"
    and "cb' \<noteq> cb \<Longrightarrow> live cb' (clearInterval h s) = live cb' s"
    and "h \<noteq> 0"
proof -
  have d: "distinct (map timer_id (timers s))" using inv by (simp add: timer_inv_def)
  show "distinct (map timer_id (timers (clearInterval h s)))"
    using d by (simp add: clearInterval_def distinct_filter_ids)
  show "list_all (\<lambda>t. 0 < timer_id t \<and> timer_id t \<le> lastTimerId s) (timers (clearInterval h s))"
    using inv by (simp add: clearInterval_def timer_inv_def list_all_filter)
  show "cb' \<noteq> cb \<Longrightarrow> live cb' (clearInterval h s) = live cb' s"
    using clear_other [OF d mem] by (simp add: clearInterval_def live_def)
  show "h \<noteq> 0" using inv mem by (auto simp: timer_inv_def list_all_iff)
qed

lemma stopCountdown_stops:
  assumes inv: "timer_inv s"
  shows "countdownInterval (stopCountdown s) = None \<and>
         live UpdateCountdownCb (stopCountdown s) = [] \<and> timer_inv (stopCountdown s)"
proof (cases "countdownInterval s")
  case None
  then show ?thesis using inv by (simp add: stopCountdown_def timer_inv_def)
next
  case (Some h)
  let ?t = "Timer h UpdateCountdownCb TIMER_UPDATE_INTERVAL True"
  have own: "filter (\<lambda>t. timer_cb t = UpdateCountdownCb) (timers s) = [?t]"
    using inv Some by (simp add: timer_inv_def live_def)
  then have mem: "?t \<in> set (timers s)"
    by (rule filter_single_mem)
  have d: "distinct (map timer_id (timers s))" using inv by (simp add: timer_inv_def)
  note c = timer_inv_clear [OF inv mem]
  have gone: "live UpdateCountdownCb (clearInterval h s) = []"
    using clear_own [OF d own] by (simp add: clearInterval_def live_def)
  have other: "live FetchStatusCb (clearInterval h s) = live FetchStatusCb s"
    using c(3) [of FetchStatusCb] by simp
  have eq: "stopCountdown s = (clearInterval h s)\<lparr>countdownInterval := None\<rparr>"
    using Some c(4) by (simp add: stopCountdown_def)
  have "timer_inv ((clearInterval h s)\<lparr>countdownInterval := None\<rparr>)"
    unfolding timer_inv_def using c(1,2) gone other inv
    by (simp add: timer_inv_def clearInterval_def)
  then show ?thesis using gone by (simp add: eq)
qed

lemma stopStatusRefresh_stops:
  assumes inv: "timer_inv s"
  shows "statusRefreshInterval (stopStatusRefresh s) = None \<and>
         live FetchStatusCb (stopStatusRefresh s) = [] \<and> timer_inv (stopStatusRefresh s)"
proof (cases "statusRefreshInterval s")
  case None
  then show ?thesis using inv by (simp add: stopStatusRefresh_def timer_inv_def)
next
  case (Some h)
  let ?t = "Timer h FetchStatusCb STATUS_REFRESH_INTERVAL True"
  have own: "filter (\<lambda>t. timer_cb t = FetchStatusCb) (timers s) = [?t]"
    using inv Some by (simp add: timer_inv_def live_def)
  then have mem: "?t \<in> set (timers s)"
    by (rule filter_single_mem)
  have d: "distinct (map timer_id (timers s))" using inv by (simp add: timer_inv_def)
  note c = timer_inv_clear [OF inv mem]
  have gone: "live FetchStatusCb (clearInterval h s) = []"
    using clear_own [OF d own] by (simp add: clearInterval_def live_def)
  have other: "live UpdateCountdownCb (clearInterval h s) = live UpdateCountdownCb s"
    using c(3) [of UpdateCountdownCb] by simp
  have eq: "stopStatusRefresh s = (clearInterval h s)\<lparr>statusRefreshInterval := None\<rparr>"
    using Some c(4) by (simp add: stopStatusRefresh_def)
  have "timer_inv ((clearInterval h s)\<lparr>statusRefreshInterval := None\<rparr>)"
    unfolding timer_inv_def using c(1,2) gone other inv
    by (simp add: timer_inv_def clearInterval_def)
  then show ?thesis using gone by (simp add: eq)
qed

text \<open>Registering a timer under the next handle.\<close>

lemma timer_inv_fresh:
  assumes "timer_inv s"
  shows "distinct (map timer_id (timers s @ [Timer (Suc (lastTimerId s)) cb d r]))"
    and "list_all (\<lambda>t. 0 < timer_id t \<and> timer_id t \<le> Suc (lastTimerId s))
           (timers s @ [Timer (Suc (lastTimerId s)) cb d r])"
  using assms by (auto simp: timer_inv_def list_all_iff)

lemma timer_inv_setTimeout:
  "timer_inv s \<Longrightarrow> timer_inv (setTimeout HideControlMessageCb d s)"
  using timer_inv_fresh [of s HideControlMessageCb d False]
  by (simp add: setTimeout_def Let_def timer_inv_def live_def)

lemma timer_inv_showControlMessage:
  "timer_inv s \<Longrightarrow> timer_inv (showControlMessage m ty s)"
  by (simp add: showControlMessage_def timer_inv_setTimeout)

lemma startStatusRefresh_starts:
  assumes inv: "timer_inv s"
  shows "statusRefreshInterval (startStatusRefresh s) = Some (Suc (lastTimerId s)) \<and>
         live FetchStatusCb (startStatusRefresh s) =
           [Timer (Suc (lastTimerId s)) FetchStatusCb STATUS_REFRESH_INTERVAL True] \<and>
         timer_inv (startStatusRefresh s)"
proof -
  let ?s1 = "stopStatusRefresh s"
  note st = stopStatusRefresh_stops [OF inv]
  have inv1: "timer_inv ?s1" using st by simp
  have none: "live FetchStatusCb ?s1 = []" using st by simp
  note f = timer_inv_fresh [OF inv1, of FetchStatusCb STATUS_REFRESH_INTERVAL True]
  show ?thesis
    using f none inv1
    by (simp add: startStatusRefresh_def setInterval_def Let_def timer_inv_def live_def)
qed

lemma timer_inv_fetchStatus: "timer_inv s \<Longrightarrow> timer_inv (state_of (fetchStatus s))"
  by (simp add: fetchStatus_def fetch_def)

lemma updateCountdown_timers:
  assumes inv: "timer_inv s"
  shows "timer_inv (updateCountdown b now s)"
  using stopCountdown_stops [of "s\<lparr>elements := (elements s)\<lparr>adminDays_text := ''00'', adminHours_text := ''00'',
               adminMinutes_text := ''00'', adminSeconds_text := ''00''\<rparr>\<rparr>"] inv
  by (simp add: updateCountdown_def Let_def timer_inv_fetchStatus split: option.splits)

lemma updateCountdown_no_new_timer:
  assumes inv: "timer_inv s" and none: "live UpdateCountdownCb s = []"
  shows "live UpdateCountdownCb (updateCountdown b now s) = []"
  using stopCountdown_stops [of "s\<lparr>elements := (elements s)\<lparr>adminDays_text := ''00'', adminHours_text := ''00'',
               adminMinutes_text := ''00'', adminSeconds_text := ''00''\<rparr>\<rparr>"] inv none
  by (simp add: updateCountdown_def Let_def split: option.splits)

lemma startCountdown_starts:
  assumes inv: "timer_inv s"
  shows "countdownInterval (startCountdown b now s) = Some (Suc (lastTimerId s)) \<and>
         live UpdateCountdownCb (startCountdown b now s) =
           [Timer (Suc (lastTimerId s)) UpdateCountdownCb TIMER_UPDATE_INTERVAL True] \<and>
         timer_inv (startCountdown b now s)"
proof -
  let ?s1 = "stopCountdown s"
  let ?s2 = "updateCountdown b now ?s1"
  note st = stopCountdown_stops [OF inv]
  have inv1: "timer_inv ?s1" using st by simp
  have none1: "live UpdateCountdownCb ?s1 = []" using st by simp
  have inv2: "timer_inv ?s2" using inv1 by (rule updateCountdown_timers)
  have none2: "live UpdateCountdownCb ?s2 = []" using inv1 none1 by (rule updateCountdown_no_new_timer)
  note f = timer_inv_fresh [OF inv2, of UpdateCountdownCb TIMER_UPDATE_INTERVAL True]
  show ?thesis
    using f none2 inv2
    by (simp add: startCountdown_def setInterval_def Let_def timer_inv_def live_def)
qed

lemma timer_inv_handleLogout: "timer_inv s \<Longrightarrow> timer_inv (handleLogout s)"
  using stopStatusRefresh_stops [of "s\<lparr>isAuthenticated := False, adminApiKey := [], sessionStorage := None\<rparr>"]
        stopCountdown_stops [of "stopStatusRefresh (s\<lparr>isAuthenticated := False, adminApiKey := [], sessionStorage := None\<rparr>)"]
  by (simp add: handleLogout_def Let_def showLoginSection_def)

lemma timer_inv_updateButtonStates: "timer_inv (updateButtonStates s) = timer_inv s"
  by (simp add: updateButtonStates_def Let_def)

lemma timer_inv_updateStatusDisplay: "timer_inv (updateStatusDisplay b s) = timer_inv s"
  by (simp add: updateStatusDisplay_def Let_def)

lemma timer_inv_stopCountdown: "timer_inv s \<Longrightarrow> timer_inv (stopCountdown s)"
  using stopCountdown_stops by simp

lemma timer_inv_stopStatusRefresh: "timer_inv s \<Longrightarrow> timer_inv (stopStatusRefresh s)"
  using stopStatusRefresh_stops by simp

lemma timer_inv_startCountdown: "timer_inv s \<Longrightarrow> timer_inv (startCountdown b now s)"
  using startCountdown_starts by simp

lemma timer_inv_startStatusRefresh: "timer_inv s \<Longrightarrow> timer_inv (startStatusRefresh s)"
  using startStatusRefresh_starts by simp

lemma timer_inv_fetchStatus_response:
  "timer_inv s \<Longrightarrow> timer_inv (fetchStatus_response b now r s)"
  by (simp add: fetchStatus_response_def Let_def timer_inv_handleLogout
      timer_inv_updateButtonStates timer_inv_updateStatusDisplay
      timer_inv_startCountdown timer_inv_stopCountdown
      split: response.splits option.splits status_body.splits competition_data.splits)

lemma timer_inv_login_accepted:
  "timer_inv s \<Longrightarrow> timer_inv (startStatusRefresh (state_of (fetchStatus (showAdminControls s))))"
  using startStatusRefresh_starts [of "state_of (fetchStatus (showAdminControls s))"]
  by (simp add: timer_inv_fetchStatus showAdminControls_def)

lemma timer_inv_handleLogin_response:
  "timer_inv s \<Longrightarrow> timer_inv (handleLogin_response r s)"
  using timer_inv_login_accepted [of "s\<lparr>isAuthenticated := True, sessionStorage := Some (adminApiKey s)\<rparr>"]
  by (simp add: handleLogin_response_def showLoginError_def split: response.splits)

lemma timer_inv_verifyAuthentication_response:
  "timer_inv s \<Longrightarrow> timer_inv (verifyAuthentication_response r s)"
  using timer_inv_login_accepted [of "s\<lparr>isAuthenticated := True\<rparr>"]
  by (simp add: verifyAuthentication_response_def split: response.splits)

lemma timer_inv_handleLogin: "timer_inv s \<Longrightarrow> timer_inv (state_of (handleLogin s))"
  by (simp add: handleLogin_def Let_def showLoginError_def fetch_def)

lemma timer_inv_handleStartCompetition:
  "timer_inv s \<Longrightarrow> timer_inv (state_of (handleStartCompetition d confirmed s))"
  by (simp add: handleStartCompetition_def Let_def confirm_def fetch_def timer_inv_showControlMessage)

lemma timer_inv_handleResetCompetition:
  "timer_inv s \<Longrightarrow> timer_inv (state_of (handleResetCompetition confirmed s))"
  by (simp add: handleResetCompetition_def Let_def confirm_def fetch_def timer_inv_showControlMessage)

lemma timer_inv_handleStartCompetition_response:
  "timer_inv s \<Longrightarrow> timer_inv (handleStartCompetition_response d r s)"
  by (simp add: handleStartCompetition_response_def timer_inv_updateButtonStates
      timer_inv_showControlMessage timer_inv_fetchStatus
      split: response.splits option.splits action_body.splits)

lemma timer_inv_handleResetCompetition_response:
  "timer_inv s \<Longrightarrow> timer_inv (handleResetCompetition_response r s)"
  by (simp add: handleResetCompetition_response_def Let_def
      timer_inv_showControlMessage timer_inv_fetchStatus
      split: response.splits option.splits action_body.splits)

lemma timer_inv_hide:
  assumes inv: "timer_inv s" and mem: "Timer h HideControlMessageCb 5000 False \<in> set (timers s)"
  shows "timer_inv (hideControlMessage (clearInterval h s))"
proof -
  note c = timer_inv_clear [OF inv mem]
  have "timer_inv (clearInterval h s)"
    unfolding timer_inv_def using c(1,2) c(3) [of FetchStatusCb] c(3) [of UpdateCountdownCb] inv
    by (simp add: timer_inv_def clearInterval_def)
  then show ?thesis by (simp add: hideControlMessage_def)
qed

lemma timer_inv_step: "timer_inv s \<Longrightarrow> timer_inv (step b s ev)"
proof (cases ev)
  case (Submit v)
  assume "timer_inv s"
  then have "timer_inv (s\<lparr>elements := (elements s)\<lparr>adminPassword_value := v\<rparr>\<rparr>)" by simp
  then show ?thesis using Submit by (simp add: timer_inv_handleLogin)
next
  case BeforeUnload
  assume inv: "timer_inv s"
  have "timer_inv (stopStatusRefresh s)" using stopStatusRefresh_stops [OF inv] by simp
  then have "timer_inv (stopCountdown (stopStatusRefresh s))"
    using stopCountdown_stops by simp
  then show ?thesis using BeforeUnload by simp
qed (simp_all add: timer_inv_handleLogin_response timer_inv_verifyAuthentication_response
      timer_inv_handleLogout timer_inv_handleStartCompetition
      timer_inv_handleStartCompetition_response timer_inv_handleResetCompetition
      timer_inv_handleResetCompetition_response timer_inv_fetchStatus_response
      timer_inv_fetchStatus updateCountdown_timers timer_inv_hide)

lemma timer_inv_boot: "timer_inv (boot page stored)"
  by (simp add: boot_def init_def initial_state_def verifyAuthentication_def fetch_def
      timer_inv_def live_def split: option.splits)

lemma timer_inv_foldl: "timer_inv s \<Longrightarrow> timer_inv (foldl (step b) s evs)"
  by (induction evs arbitrary: s) (simp_all add: timer_inv_step)

lemma timer_inv_run: "timer_inv (run b (boot page stored) evs)"
  by (simp add: run_def timer_inv_foldl timer_inv_boot)


subsection \<open>Button states\<close>

text \<open>
  C3. A status response that is applied (a 2xx status, a body with \<open>success\<close> and a
  \<open>competition\<close> object) replaces the competition state, and when the handler is over the
  three start buttons are disabled exactly when the new state is active and not ended, the
  reset button exactly when it is neither active nor ended.
\<close>

theorem button_states_after_status_update:
  assumes "ok status"
  shows "let s' = fetchStatus_response b now
                    (Response status (Some (StatusBody True
                       (Some (CompetitionData act ended st en rem dur))))) s
         in isActive (competitionState s') = act \<and> isEnded (competitionState s') = ended \<and>
            start7DaysBtn_disabled (elements s') = (act \<and> \<not> ended) \<and>
            start14DaysBtn_disabled (elements s') = (act \<and> \<not> ended) \<and>
            start30DaysBtn_disabled (elements s') = (act \<and> \<not> ended) \<and>
            resetBtn_disabled (elements s') = (\<not> act \<and> \<not> ended)"
  using assms
  by (simp add: fetchStatus_response_def Let_def updateButtonStates_buttons)

theorem button_states_after_status_update_witness:
  "ok 200 \<and>
   (let s' = fetchStatus_response sample_browser 0
               (Response 200 (Some (StatusBody True
                  (Some (CompetitionData True False None None None None))))) logged_in
    in start7DaysBtn_disabled (elements s') \<and> start14DaysBtn_disabled (elements s') \<and>
       start30DaysBtn_disabled (elements s') \<and> \<not> resetBtn_disabled (elements s'))"
proof -
  have h: "ok 200" by (simp add: ok_def)
  show ?thesis
    using h button_states_after_status_update [OF h, where b = sample_browser and now = 0
        and act = True and ended = False and st = None and en = None and rem = None
        and dur = None and s = logged_in]
    by (simp add: Let_def)
qed

subsection \<open>Calls while not authenticated\<close>

text \<open>
  C10. While \<open>isAuthenticated\<close> is false, \<open>handleStartCompetition\<close>,
  \<open>handleResetCompetition\<close> and \<open>fetchStatus\<close> return at once and leave the whole
  state as it was: no request, no dialog, no change to the competition state, the page or
  the timers.
\<close>

theorem unauthenticated_calls_return_at_once:
  "\<not> isAuthenticated s \<Longrightarrow>
     handleStartCompetition d confirmed s = Returned s \<and>
     handleResetCompetition confirmed s = Returned s \<and>
     fetchStatus s = Returned s"
  by (simp add: handleStartCompetition_def handleResetCompetition_def fetchStatus_def)

theorem unauthenticated_calls_return_at_once_witness:
  "\<not> isAuthenticated (boot sample_page None) \<and>
   handleStartCompetition 7 True (boot sample_page None) = Returned (boot sample_page None) \<and>
   handleResetCompetition True (boot sample_page None) = Returned (boot sample_page None) \<and>
   fetchStatus (boot sample_page None) = Returned (boot sample_page None)"
proof -
  have h: "\<not> isAuthenticated (boot sample_page None)"
    by (simp add: boot_def init_def initial_state_def)
  show ?thesis
    using h unauthenticated_calls_return_at_once [OF h, of 7 True] by simp
qed

subsection \<open>Timers\<close>



subsection \<open>Login\<close>








subsection \<open>Session expiry and the validity of a stored key\<close>

text \<open>The status fetch logs out on 401 and on 403.\<close>

lemma handleLogout_result:
  "isAuthenticated (handleLogout s) = False"
  "adminApiKey (handleLogout s) = []"
  "sessionStorage (handleLogout s) = None"
  by (simp_all add: handleLogout_def Let_def showLoginSection_def)

lemma fetchStatus_response_unauthorized:
  "status = 401 \<or> status = 403 \<Longrightarrow>
     fetchStatus_response b now (Response status body) s = handleLogout s"
  by (auto simp: fetchStatus_response_def ok_def)

lemma handleLogout_stops_timers:
  assumes "timer_inv s"
  shows "statusRefreshInterval (handleLogout s) = None"
    and "countdownInterval (handleLogout s) = None"
    and "live FetchStatusCb (handleLogout s) = []"
    and "live UpdateCountdownCb (handleLogout s) = []"
proof -
  let ?s1 = "s\<lparr>isAuthenticated := False, adminApiKey := [], sessionStorage := None\<rparr>"
  have inv1: "timer_inv ?s1" using assms by simp
  note a = stopStatusRefresh_stops [OF inv1]
  have inv2: "timer_inv (stopStatusRefresh ?s1)" using a by simp
  note b = stopCountdown_stops [OF inv2]
  show p: "statusRefreshInterval (handleLogout s) = None"
    using a by (simp add: handleLogout_def Let_def showLoginSection_def)
  show c: "countdownInterval (handleLogout s) = None"
    using b by (simp add: handleLogout_def Let_def showLoginSection_def)
  have inv: "timer_inv (handleLogout s)" using assms by (rule timer_inv_handleLogout)
  show "live FetchStatusCb (handleLogout s) = []"
    using inv p by (simp add: timer_inv_def)
  show "live UpdateCountdownCb (handleLogout s) = []"
    using inv c by (simp add: timer_inv_def)
qed

lemma status_fetch_unauthorized_logs_out:
  assumes "status = 401 \<or> status = 403" "timer_inv s"
  shows "let s' = fetchStatus_response b now (Response status body) s
         in \<not> isAuthenticated s' \<and> adminApiKey s' = [] \<and> sessionStorage s' = None \<and>
            statusRefreshInterval s' = None \<and> countdownInterval s' = None \<and>
            live FetchStatusCb s' = [] \<and> live UpdateCountdownCb s' = []"
  using assms(1) handleLogout_stops_timers [OF assms(2)]
  by (simp add: fetchStatus_response_unauthorized handleLogout_result Let_def)

text \<open>
  C1. The claim asks that a 401 or 403 answer to a start or a reset logs the panel out, as
  it does for a status fetch. The two handlers never read the status of the response:
  whatever the response, the session, the key in memory and in sessionStorage, the two
  handles and the live poll and countdown timers are as before.
\<close>

theorem start_and_reset_responses_keep_the_session:
  "(let s' = handleStartCompetition_response d r s
    in isAuthenticated s' = isAuthenticated s \<and> adminApiKey s' = adminApiKey s \<and>
       sessionStorage s' = sessionStorage s \<and>
       statusRefreshInterval s' = statusRefreshInterval s \<and>
       countdownInterval s' = countdownInterval s \<and>
       live FetchStatusCb s' = live FetchStatusCb s \<and>
       live UpdateCountdownCb s' = live UpdateCountdownCb s) \<and>
   (let s' = handleResetCompetition_response r s
    in isAuthenticated s' = isAuthenticated s \<and> adminApiKey s' = adminApiKey s \<and>
       sessionStorage s' = sessionStorage s \<and>
       statusRefreshInterval s' = statusRefreshInterval s \<and>
       countdownInterval s' = countdownInterval s \<and>
       live FetchStatusCb s' = live FetchStatusCb s \<and>
       live UpdateCountdownCb s' = live UpdateCountdownCb s)"
  by (simp add: handleStartCompetition_response_def handleResetCompetition_response_def Let_def
      split: response.splits option.splits action_body.splits)

theorem start_and_reset_responses_keep_the_session_witness:
  "(let s' = handleStartCompetition_response 7
               (Response 401 (Some (ActionBody False (Text ''Unauthorized''))))
               (state_of (handleStartCompetition 7 True logged_in))
    in isAuthenticated s' \<and> adminApiKey s' = ''secret'' \<and> sessionStorage s' = Some ''secret'' \<and>
       statusRefreshInterval s' = Some 1 \<and>
       live FetchStatusCb s' = [Timer 1 FetchStatusCb 30000 True]) \<and>
   (let s' = handleResetCompetition_response
               (Response 403 (Some (ActionBody False (Text ''Forbidden''))))
               (state_of (handleResetCompetition True logged_in))
    in isAuthenticated s' \<and> adminApiKey s' = ''secret'' \<and> sessionStorage s' = Some ''secret'' \<and>
       statusRefreshInterval s' = Some 1 \<and>
       live FetchStatusCb s' = [Timer 1 FetchStatusCb 30000 True])"
  using start_and_reset_responses_keep_the_session
          [of 7 "Response 401 (Some (ActionBody False (Text ''Unauthorized'')))"
              "state_of (handleStartCompetition 7 True logged_in)"]
        start_and_reset_responses_keep_the_session
          [of 7 "Response 403 (Some (ActionBody False (Text ''Forbidden'')))"
              "state_of (handleResetCompetition True logged_in)"]
  by (simp add: Let_def handleStartCompetition_def handleResetCompetition_def logged_in_eq
      initial_state_def confirm_def fetch_def live_def showControlMessage_def setTimeout_def)

text \<open>
  C5. The claim asks that a stored key is only discarded when the server refuses it.
  \<open>verifyAuthentication\<close> discards it for every status that is not 2xx, a 500 as well as a
  401; only a network failure leaves it alone.
\<close>

theorem verifyAuthentication_discards_on_every_failure_status:
  "\<not> ok status \<Longrightarrow>
     sessionStorage (verifyAuthentication_response (Response status body) s) = None \<and>
     adminApiKey (verifyAuthentication_response (Response status body) s) = [] \<and>
     verifyAuthentication_response NetworkError s = s"
  by (simp add: verifyAuthentication_response_def)

theorem verifyAuthentication_discards_on_every_failure_status_witness:
  "\<not> ok 500 \<and>
   sessionStorage (boot sample_page (Some ''secret'')) = Some ''secret'' \<and>
   adminApiKey (boot sample_page (Some ''secret'')) = ''secret'' \<and>
   sessionStorage (verifyAuthentication_response (Response 500 None)
                     (boot sample_page (Some ''secret''))) = None \<and>
   adminApiKey (verifyAuthentication_response (Response 500 None)
                  (boot sample_page (Some ''secret''))) = []"
proof -
  have h: "\<not> ok 500" by (simp add: ok_def)
  show ?thesis
    using h verifyAuthentication_discards_on_every_failure_status
              [OF h, of None "boot sample_page (Some ''secret'')"]
    by (simp add: boot_def init_def initial_state_def verifyAuthentication_def fetch_def)
qed

subsection \<open>Countdown\<close>

text \<open>Decimal digits, padding, and the four fields of a distance that is not negative.\<close>

lemma digit_value: "d < 10 \<Longrightarrow> of_char (digit_char d) - 48 = (d::nat)"
  by (simp add: digit_char_def)

lemma decimal_value_snoc: "decimal_value (v @ [c]) = 10 * decimal_value v + (of_char c - 48)"
  by (simp add: decimal_value_def)

lemma decimal_value_String_nat: "decimal_value (String_nat n) = n"
proof (induction n rule: String_nat.induct)
  case (1 n)
  show ?case
  proof (cases "n < 10")
    case True
    then show ?thesis
      by (subst String_nat.simps) (simp add: decimal_value_def digit_value)
  next
    case False
    then have "decimal_value (String_nat n) = 10 * decimal_value (String_nat (n div 10)) + n mod 10"
      by (subst String_nat.simps) (simp add: decimal_value_snoc digit_value)
    then show ?thesis using 1 False by simp
  qed
qed

lemma decimal_value_zeros: "decimal_value (replicate k CHR ''0'' @ v) = decimal_value v"
proof -
  have "foldl (\<lambda>a c. 10 * a + (of_char c - 48)) (0::nat) (replicate k CHR ''0'') = 0"
    by (induction k) simp_all
  then show ?thesis by (simp add: decimal_value_def)
qed

lemma length_String_nat_pos: "0 < length (String_nat n)"
  by (subst String_nat.simps) simp

lemma String_nat_digit: "n < 10 \<Longrightarrow> String_nat n = [digit_char n]"
  by (subst String_nat.simps) simp

lemma length_String_nat_small:
  assumes "n < 100"
  shows "length (String_nat n) \<le> 2"
proof (cases "n < 10")
  case True
  then show ?thesis by (simp add: String_nat_digit)
next
  case False
  have "n div 10 < 10" using assms by simp
  then have "String_nat n = [digit_char (n div 10), digit_char (n mod 10)]"
    using False by (subst String_nat.simps) (simp add: String_nat_digit)
  then show ?thesis by simp
qed

lemma padStart_zero: "padStart 2 ''0'' v = replicate (2 - length v) CHR ''0'' @ v"
proof -
  have "concat (replicate k ''0'') = replicate k CHR ''0''" for k
    by (induction k) simp_all
  then show ?thesis by (simp add: padStart_def)
qed

lemma padStart_String_nat: "padStart 2 ''0'' (String_nat n) = zero_padded2 n"
  by (simp add: padStart_zero zero_padded2_def)

lemma decimal_value_zero_padded2: "decimal_value (zero_padded2 n) = n"
  by (simp add: zero_padded2_def decimal_value_zeros decimal_value_String_nat)

lemma length_zero_padded2: "n < 100 \<Longrightarrow> length (zero_padded2 n) = 2"
  using length_String_nat_small [of n] length_String_nat_pos [of n]
  by (simp add: zero_padded2_def)

lemma length_zero_padded2_ge: "2 \<le> length (zero_padded2 n)"
  by (simp add: zero_padded2_def)

lemma js_rem_nonneg: "0 \<le> a \<Longrightarrow> 0 < b \<Longrightarrow> js_rem a b = a mod b"
  by (simp add: js_rem_def)

lemma div1000_mod:
  fixes D :: int
  assumes "0 < k"
  shows "(D mod (1000 * k)) div 1000 = (D div 1000) mod k"
proof -
  have "D mod (1000 * k) = 1000 * (D div 1000 mod k) + D mod 1000"
    using assms zmod_zmult2_eq [of k D 1000] by simp
  then show ?thesis by simp
qed

lemma recompose:
  fixes S :: int
  assumes "q1 * 86400 + r1 = S" "q2 * 3600 + r2 = r1" "q3 * 60 + r3 = r2"
  shows "q1 * 86400 + q2 * 3600 + q3 * 60 + r3 = S"
  using assms by simp

lemma countdown_parts:
  assumes "0 \<le> D"
  shows "days_of D = D div 1000 div 86400"
    and "hours_of D = (D div 1000 mod 86400) div 3600"
    and "minutes_of D = (D div 1000 mod 3600) div 60"
    and "seconds_of D = D div 1000 mod 60"
proof -
  have "days_of D = D div (1000 * 86400)" by (simp add: days_of_def)
  also have "\<dots> = D div 1000 div 86400" by (rule zdiv_zmult2_eq) simp
  finally show "days_of D = D div 1000 div 86400" .
  have "hours_of D = (D mod (1000 * 86400)) div (1000 * 3600)"
    using assms by (simp add: hours_of_def js_rem_def)
  also have "\<dots> = (D mod (1000 * 86400)) div 1000 div 3600" by (rule zdiv_zmult2_eq) simp
  also have "\<dots> = (D div 1000 mod 86400) div 3600" by (subst div1000_mod) simp_all
  finally show "hours_of D = (D div 1000 mod 86400) div 3600" .
  have "minutes_of D = (D mod (1000 * 3600)) div (1000 * 60)"
    using assms by (simp add: minutes_of_def js_rem_def)
  also have "\<dots> = (D mod (1000 * 3600)) div 1000 div 60" by (rule zdiv_zmult2_eq) simp
  also have "\<dots> = (D div 1000 mod 3600) div 60" by (subst div1000_mod) simp_all
  finally show "minutes_of D = (D div 1000 mod 3600) div 60" .
  have "seconds_of D = (D mod (1000 * 60)) div 1000"
    using assms by (simp add: seconds_of_def js_rem_def)
  also have "\<dots> = D div 1000 mod 60" by (subst div1000_mod) simp_all
  finally show "seconds_of D = D div 1000 mod 60" .
qed

lemma countdown_sum:
  assumes "0 \<le> D"
  shows "days_of D * 86400 + hours_of D * 3600 + minutes_of D * 60 + seconds_of D = D div 1000"
proof -
  define S where "S = D div 1000"
  have a: "S div 86400 * 86400 + S mod 86400 = S"
    by (rule div_mult_mod_eq)
  have b': "(S mod 86400) mod 3600 = S mod 3600"
    by (rule mod_mod_cancel) simp
  have b: "(S mod 86400) div 3600 * 3600 + S mod 3600 = S mod 86400"
    using div_mult_mod_eq [of "S mod 86400" 3600] by (simp only: b')
  have c': "(S mod 3600) mod 60 = S mod 60"
    by (rule mod_mod_cancel) simp
  have c: "(S mod 3600) div 60 * 60 + S mod 60 = S mod 3600"
    using div_mult_mod_eq [of "S mod 3600" 60] by (simp only: c')
  show ?thesis
    unfolding countdown_parts [OF assms] S_def [symmetric] by (rule recompose [OF a b c])
qed

lemma div_bound:
  fixes y :: int
  assumes "y < c * k" "0 < k"
  shows "y div k < c"
proof (rule ccontr)
  assume "\<not> y div k < c"
  then have "c \<le> y div k" by simp
  then have "c * k \<le> y div k * k" using assms(2) by (simp add: mult_right_mono)
  also have "\<dots> \<le> y"
    using div_mult_mod_eq [of y k] pos_mod_sign [OF assms(2), of y] by linarith
  finally show False using assms(1) by simp
qed

lemma countdown_bounds:
  assumes "0 \<le> D"
  shows "0 \<le> days_of D" and "0 \<le> hours_of D" and "hours_of D < 24"
    and "0 \<le> minutes_of D" and "minutes_of D < 60"
    and "0 \<le> seconds_of D" and "seconds_of D < 60"
proof -
  define S where "S = D div 1000"
  have S: "0 \<le> S" using assms by (simp add: S_def pos_imp_zdiv_nonneg_iff)
  have r1: "0 \<le> S mod 86400" "S mod 86400 < 24 * 3600" by simp_all
  have r2: "0 \<le> S mod 3600" "S mod 3600 < 60 * 60" by simp_all
  show "0 \<le> days_of D" unfolding countdown_parts [OF assms] S_def [symmetric]
    using S by (simp add: pos_imp_zdiv_nonneg_iff)
  show "0 \<le> hours_of D" unfolding countdown_parts [OF assms] S_def [symmetric]
    using r1(1) by (simp add: pos_imp_zdiv_nonneg_iff)
  show "hours_of D < 24" unfolding countdown_parts [OF assms] S_def [symmetric]
    by (rule div_bound [OF r1(2)]) simp
  show "0 \<le> minutes_of D" unfolding countdown_parts [OF assms] S_def [symmetric]
    using r2(1) by (simp add: pos_imp_zdiv_nonneg_iff)
  show "minutes_of D < 60" unfolding countdown_parts [OF assms] S_def [symmetric]
    by (rule div_bound [OF r2(2)]) simp
  show "0 \<le> seconds_of D" unfolding countdown_parts [OF assms] by simp
  show "seconds_of D < 60" unfolding countdown_parts [OF assms] by simp
qed

lemma String_number_nonneg: "0 \<le> i \<Longrightarrow> padStart 2 ''0'' (String_number (Some i)) = zero_padded2 (nat i)"
  by (simp add: String_number_def String_int_def padStart_String_nat)

lemma updateCountdown_running:
  assumes "isActive (competitionState s)" "endTime (competitionState s) = Some e" "e \<noteq> []"
    "Date_getTime b e = Some t" "0 \<le> t - now"
  shows "elements (updateCountdown b now s) =
           (elements s)\<lparr>
             adminDays_text := zero_padded2 (nat (days_of (t - now))),
             adminHours_text := zero_padded2 (nat (hours_of (t - now))),
             adminMinutes_text := zero_padded2 (nat (minutes_of (t - now))),
             adminSeconds_text := zero_padded2 (nat (seconds_of (t - now))),
             countdown_ending := (days_of (t - now) = 0 \<and> hours_of (t - now) < 24)\<rparr>"
  using assms countdown_bounds [OF assms(5)]
  by (simp add: updateCountdown_def Let_def String_number_nonneg)

text \<open>The sample sessions, evaluated.\<close>

lemma digit_char_01: "digit_char 0 = CHR ''0''" "digit_char (Suc 0) = CHR ''1''"
  using char_of_char [of "CHR ''0''", where ?'a = nat] char_of_char [of "CHR ''1''", where ?'a = nat]
  by (simp_all add: digit_char_def)

lemmas eval_defs = run_def boot_def init_def initial_state_def sample_page_def sample_browser_def
      sample_status_def
      handleLogin_def handleLogin_response_def trim_secret fetch_def status_request_def
      ok_def showAdminControls_def fetchStatus_def startStatusRefresh_def stopStatusRefresh_def
      setInterval_def clearInterval_def STATUS_REFRESH_INTERVAL_def TIMER_UPDATE_INTERVAL_def
      handleLogout_def showLoginSection_def stopCountdown_def startCountdown_def
      fetchStatus_response_def updateStatusDisplay_def updateButtonStates_def
      updateCountdown_def formatDateTime_def String_number_def String_int_def padStart_def
      days_of_def hours_of_def minutes_of_def seconds_of_def js_rem_def String_nat_digit
      digit_char_01 Let_def

lemma ticking_after_logout_eq:
  "ticking_after_logout =
     \<lparr>isAuthenticated = False, adminApiKey = [],
      competitionState =
        \<lparr>isActive = True, isEnded = False, startTime = Some ''2029-12-25T00:00:00.000Z'',
         endTime = Some ''2030-01-01T00:00:00.000Z'', remainingSeconds = 0, durationDays = 7\<rparr>,
      statusRefreshInterval = None, countdownInterval = Some 2,
      elements =
        \<lparr>loginSection_hidden = False, adminControls_hidden = True,
         adminPassword_value = [], loginError_text = [], loginError_show = False,
         statusValue_text = ''Active (7 Days)'', statusValue_class = [''status-badge'', ''active''],
         startTime_text = ''2029-12-25T00:00:00.000Z'',
         endTime_text = ''2030-01-01T00:00:00.000Z'', countdown_text = [],
         countdown_ending = True, adminDays_text = ''00'', adminHours_text = ''01'',
         adminMinutes_text = ''01'', adminSeconds_text = ''01'',
         start7DaysBtn_disabled = True, start14DaysBtn_disabled = True,
         start30DaysBtn_disabled = True, resetBtn_disabled = False,
         controlMessage_text = [], controlMessage_class = [''message'']\<rparr>,
      sessionStorage = None, timers = [Timer 2 UpdateCountdownCb 1000 True], lastTimerId = 2,
      requests =
        [Request GET (API_BASE_URL @ ''/api/admin/status'') ''secret'' None,
         Request GET (API_BASE_URL @ ''/api/admin/status'') ''secret'' None],
      dialogs = []\<rparr>"
  by (simp add: ticking_after_logout_def eval_defs)

lemma counting_eq:
  "counting =
     \<lparr>isAuthenticated = True, adminApiKey = ''secret'',
      competitionState =
        \<lparr>isActive = True, isEnded = False, startTime = Some ''2029-12-25T00:00:00.000Z'',
         endTime = Some ''2030-01-01T00:00:00.000Z'', remainingSeconds = 0, durationDays = 7\<rparr>,
      statusRefreshInterval = Some 1, countdownInterval = Some 2,
      elements =
        \<lparr>loginSection_hidden = True, adminControls_hidden = False,
         adminPassword_value = ''secret'', loginError_text = [], loginError_show = False,
         statusValue_text = ''Active (7 Days)'', statusValue_class = [''status-badge'', ''active''],
         startTime_text = ''2029-12-25T00:00:00.000Z'',
         endTime_text = ''2030-01-01T00:00:00.000Z'', countdown_text = [],
         countdown_ending = True, adminDays_text = ''00'', adminHours_text = ''01'',
         adminMinutes_text = ''01'', adminSeconds_text = ''01'',
         start7DaysBtn_disabled = True, start14DaysBtn_disabled = True,
         start30DaysBtn_disabled = True, resetBtn_disabled = False,
         controlMessage_text = [], controlMessage_class = [''message'']\<rparr>,
      sessionStorage = Some ''secret'',
      timers = [Timer 1 FetchStatusCb 30000 True, Timer 2 UpdateCountdownCb 1000 True],
      lastTimerId = 2,
      requests =
        [Request GET (API_BASE_URL @ ''/api/admin/status'') ''secret'' None,
         Request GET (API_BASE_URL @ ''/api/admin/status'') ''secret'' None],
      dialogs = []\<rparr>"
  by (simp add: counting_def logged_in_eq eval_defs)

text \<open>
  C2. On a tick of the countdown with the competition active, an end time that is a date
  and a distance \<open>D = endTime - now\<close> that is not negative, the four displayed fields
  read as numbers \<open>days\<close>, \<open>hours\<close>, \<open>minutes\<close> and \<open>seconds\<close> with
  \<open>days * 86400 + hours * 3600 + minutes * 60 + seconds = D div 1000\<close>, and each field is
  its number in decimal, padded with zeros to width 2: the hours, minutes and seconds are
  two characters, the days at least two.
\<close>

theorem countdown_fields_decompose:
  assumes "isActive (competitionState s)" "endTime (competitionState s) = Some e" "e \<noteq> []"
    "Date_getTime b e = Some t" "0 \<le> t - now"
  shows "let el = elements (updateCountdown b now s);
             days = decimal_value (adminDays_text el);
             hours = decimal_value (adminHours_text el);
             minutes = decimal_value (adminMinutes_text el);
             seconds = decimal_value (adminSeconds_text el)
         in int days * 86400 + int hours * 3600 + int minutes * 60 + int seconds = (t - now) div 1000 \<and>
            adminDays_text el = zero_padded2 days \<and>
            adminHours_text el = zero_padded2 hours \<and>
            adminMinutes_text el = zero_padded2 minutes \<and>
            adminSeconds_text el = zero_padded2 seconds \<and>
            hours < 24 \<and> minutes < 60 \<and> seconds < 60 \<and>
            2 \<le> length (adminDays_text el) \<and>
            length (adminHours_text el) = 2 \<and>
            length (adminMinutes_text el) = 2 \<and>
            length (adminSeconds_text el) = 2"
proof -
  let ?D = "t - now"
  note bd = countdown_bounds [OF assms(5)]
  have h: "nat (hours_of ?D) < 24" "nat (hours_of ?D) < 100" using bd(2,3) by simp_all
  have m: "nat (minutes_of ?D) < 60" "nat (minutes_of ?D) < 100" using bd(4,5) by simp_all
  have s: "nat (seconds_of ?D) < 60" "nat (seconds_of ?D) < 100" using bd(6,7) by simp_all
  have sum: "int (nat (days_of ?D)) * 86400 + int (nat (hours_of ?D)) * 3600 +
             int (nat (minutes_of ?D)) * 60 + int (nat (seconds_of ?D)) = ?D div 1000"
    using bd(1,2,4,6) countdown_sum [OF assms(5)] by simp
  show ?thesis
    using h m s sum
    by (simp add: updateCountdown_running [OF assms] Let_def decimal_value_zero_padded2
        length_zero_padded2 length_zero_padded2_ge)
qed

theorem countdown_fields_decompose_witness:
  "isActive (competitionState counting) \<and>
   endTime (competitionState counting) = Some ''2030-01-01T00:00:00.000Z'' \<and>
   Date_getTime sample_browser ''2030-01-01T00:00:00.000Z'' = Some 1893456000000 \<and>
   (0::int) \<le> 1893456000000 - 1893452339000 \<and>
   (let el = elements (updateCountdown sample_browser 1893452339000 counting)
    in adminDays_text el = ''00'' \<and> adminHours_text el = ''01'' \<and>
       adminMinutes_text el = ''01'' \<and> adminSeconds_text el = ''01'' \<and>
       int (decimal_value (adminDays_text el)) * 86400 +
       int (decimal_value (adminHours_text el)) * 3600 +
       int (decimal_value (adminMinutes_text el)) * 60 +
       int (decimal_value (adminSeconds_text el)) = 3661)"
proof -
  have h1: "isActive (competitionState counting)" by (simp add: counting_eq)
  have h2: "endTime (competitionState counting) = Some ''2030-01-01T00:00:00.000Z''"
    by (simp add: counting_eq)
  have h3: "''2030-01-01T00:00:00.000Z'' \<noteq> []" by simp
  have h4: "Date_getTime sample_browser ''2030-01-01T00:00:00.000Z'' = Some 1893456000000"
    by (simp add: sample_browser_def)
  have h5: "(0::int) \<le> 1893456000000 - 1893452339000" by simp
  have f: "zero_padded2 0 = ''00''" "zero_padded2 (Suc 0) = ''01''"
    by (simp_all add: zero_padded2_def String_nat_digit digit_char_01)
  have v: "days_of 3661000 = 0" "hours_of 3661000 = 1" "minutes_of 3661000 = 1"
    "seconds_of 3661000 = 1"
    by (simp_all add: days_of_def hours_of_def minutes_of_def seconds_of_def js_rem_def)
  have el: "adminDays_text (elements (updateCountdown sample_browser 1893452339000 counting)) = ''00''"
    "adminHours_text (elements (updateCountdown sample_browser 1893452339000 counting)) = ''01''"
    "adminMinutes_text (elements (updateCountdown sample_browser 1893452339000 counting)) = ''01''"
    "adminSeconds_text (elements (updateCountdown sample_browser 1893452339000 counting)) = ''01''"
    by (simp_all add: updateCountdown_running [OF h1 h2 h3 h4 h5] v f)
  show ?thesis
    using h1 h2 h4 el countdown_fields_decompose [OF h1 h2 h3 h4 h5]
    by (simp add: Let_def)
qed

text \<open>
  A tick past the end, taken alone: the four fields are set to \<open>00\<close>, the countdown timer
  is stopped, and one status request is sent when the panel is authenticated, none when it
  is not.
\<close>

lemma expired_tick_clamps_stops_and_refetches:
  assumes "isActive (competitionState s)" "endTime (competitionState s) = Some e" "e \<noteq> []"
    "Date_getTime b e = Some t" "t - now < 0" "timer_inv s"
  shows "let s' = updateCountdown b now s
         in adminDays_text (elements s') = ''00'' \<and> adminHours_text (elements s') = ''00'' \<and>
            adminMinutes_text (elements s') = ''00'' \<and> adminSeconds_text (elements s') = ''00'' \<and>
            countdownInterval s' = None \<and> live UpdateCountdownCb s' = [] \<and>
            requests s' = requests s @
              (if isAuthenticated s
               then [Request GET (API_BASE_URL @ ''/api/admin/status'') (adminApiKey s) None]
               else [])"
proof -
  let ?s1 = "s\<lparr>elements := (elements s)\<lparr>adminDays_text := ''00'', adminHours_text := ''00'',
               adminMinutes_text := ''00'', adminSeconds_text := ''00''\<rparr>\<rparr>"
  have eq: "updateCountdown b now s = state_of (fetchStatus (stopCountdown ?s1))"
    using assms(1-5) by (simp add: updateCountdown_def Let_def)
  have inv1: "timer_inv ?s1" using assms(6) by simp
  show ?thesis
    using stopCountdown_stops [OF inv1]
    by (simp add: eq Let_def fetchStatus_requests status_request_def)
qed

text \<open>
  The countdown can run in a panel that is logged out: a status response that arrives
  after the logout is still applied and starts it. A tick past the end sends nothing then.
\<close>

lemma expired_tick_after_logout_sends_nothing:
  "\<not> isAuthenticated ticking_after_logout \<and>
   isActive (competitionState ticking_after_logout) \<and>
   endTime (competitionState ticking_after_logout) = Some ''2030-01-01T00:00:00.000Z'' \<and>
   Date_getTime sample_browser ''2030-01-01T00:00:00.000Z'' = Some 1893456000000 \<and>
   live UpdateCountdownCb ticking_after_logout = [Timer 2 UpdateCountdownCb 1000 True] \<and>
   requests (step sample_browser ticking_after_logout (CountdownTick 1893456000001)) =
     requests ticking_after_logout"
  by (simp add: ticking_after_logout_eq live_def sample_browser_def updateCountdown_def Let_def
      stopCountdown_def clearInterval_def fetchStatus_def)

lemma updateStatusDisplay_frame2 [simp]:
  "isAuthenticated (updateStatusDisplay b s) = isAuthenticated s"
  "adminApiKey (updateStatusDisplay b s) = adminApiKey s"
  "requests (updateStatusDisplay b s) = requests s"
  "lastTimerId (updateStatusDisplay b s) = lastTimerId s"
  by (simp_all add: updateStatusDisplay_def Let_def)

lemma startCountdown_requests:
  "requests (startCountdown b now s) = requests (updateCountdown b now (stopCountdown s))"
  by (simp add: startCountdown_def setInterval_def Let_def)

text \<open>
  C4. The claim asks for exactly one status refetch for each crossing of the end time. The
  tick past the end stops the timer and refetches once, but the timer does not stay
  stopped: when the answer still reports the competition active and not ended,
  \<open>fetchStatus\<close> calls \<open>startCountdown\<close>, which runs \<open>updateCountdown\<close> at once, past the
  end again, and then registers a new timer. So the answer to the refetch sends a further
  request and leaves a countdown timer live, which refetches again a second later, and so
  on for as long as the server reports the competition active.
\<close>

theorem still_active_response_refetches_and_rearms:
  assumes "ok status" "isAuthenticated s" "timer_inv s"
    "e \<noteq> []" "Date_getTime b e = Some t" "t - now < 0"
  shows "let s' = fetchStatus_response b now
                    (Response status (Some (StatusBody True
                       (Some (CompetitionData True False st (Some e) rem dur))))) s
         in requests s' = requests s @
              [Request GET (API_BASE_URL @ ''/api/admin/status'') (adminApiKey s) None] \<and>
            countdownInterval s' = Some (Suc (lastTimerId s)) \<and>
            live UpdateCountdownCb s' =
              [Timer (Suc (lastTimerId s)) UpdateCountdownCb TIMER_UPDATE_INTERVAL True]"
proof -
  let ?c = "\<lparr> isActive = True, isEnded = False, startTime = st, endTime = Some e,
              remainingSeconds = (case rem of None \<Rightarrow> 0 | Some n \<Rightarrow> n),
              durationDays = (case dur of None \<Rightarrow> 0 | Some n \<Rightarrow> n) \<rparr>"
  let ?s2 = "updateStatusDisplay b (s\<lparr>competitionState := ?c\<rparr>)"
  let ?s3 = "stopCountdown ?s2"
  have eq: "fetchStatus_response b now
              (Response status (Some (StatusBody True
                 (Some (CompetitionData True False st (Some e) rem dur))))) s
            = updateButtonStates (startCountdown b now ?s2)"
    using assms(1) by (simp add: fetchStatus_response_def Let_def)
  have inv2: "timer_inv ?s2" using assms(3) by (simp add: timer_inv_updateStatusDisplay)
  have inv3: "timer_inv ?s3" using inv2 by (rule timer_inv_stopCountdown)
  have a: "isActive (competitionState ?s3)" "endTime (competitionState ?s3) = Some e" by simp_all
  have tick: "requests (updateCountdown b now ?s3) = requests s @
                [Request GET (API_BASE_URL @ ''/api/admin/status'') (adminApiKey s) None]"
    using expired_tick_clamps_stops_and_refetches [OF a assms(4,5,6) inv3] assms(2)
    by (simp add: Let_def)
  show ?thesis
    using startCountdown_starts [OF inv2, of b now] tick
    by (simp add: eq Let_def startCountdown_requests)
qed

theorem still_active_response_refetches_and_rearms_witness:
  "ok 200 \<and> isAuthenticated expired_once \<and> timer_inv expired_once \<and>
   Date_getTime sample_browser ''2030-01-01T00:00:00.000Z'' = Some 1893456000000 \<and>
   (1893456000000::int) - 1893456000200 < 0 \<and>
   length (requests counting) = 2 \<and>
   length (requests expired_once) = 3 \<and>
   live UpdateCountdownCb expired_once = [] \<and>
   (let s' = step sample_browser expired_once (StatusResponse 1893456000200 sample_status)
    in length (requests s') = 4 \<and>
       countdownInterval s' = Some 3 \<and>
       live UpdateCountdownCb s' = [Timer 3 UpdateCountdownCb 1000 True])"
proof -
  have h1: "ok 200" by (simp add: ok_def)
  have x: "isAuthenticated expired_once" "adminApiKey expired_once = ''secret''"
    "lastTimerId expired_once = 2" "length (requests expired_once) = 3"
    "live UpdateCountdownCb expired_once = []" "length (requests counting) = 2"
    by (simp_all add: expired_once_def counting_eq live_def sample_browser_def updateCountdown_def
        Let_def stopCountdown_def clearInterval_def fetchStatus_def fetch_def)
  have h3: "timer_inv expired_once"
    unfolding expired_once_def counting_def
    by (intro timer_inv_step) (simp add: logged_in_def timer_inv_run)
  have h4: "''2030-01-01T00:00:00.000Z'' \<noteq> []" by simp
  have h5: "Date_getTime sample_browser ''2030-01-01T00:00:00.000Z'' = Some 1893456000000"
    by (simp add: sample_browser_def)
  have h6: "(1893456000000::int) - 1893456000200 < 0" by simp
  show ?thesis
    using h1 x h3 h5
      still_active_response_refetches_and_rearms [OF h1 x(1) h3 h4 h5 h6,
        of "Some ''2029-12-25T00:00:00.000Z''" None "Some 7"]
    by (simp add: Let_def sample_status_def TIMER_UPDATE_INTERVAL_def)
qed

subsection \<open>Reset\<close>

lemma resetBtn_updateCountdown [simp]:
  "resetBtn_disabled (elements (updateCountdown b now s)) = resetBtn_disabled (elements s)"
  by (simp add: updateCountdown_def Let_def split: option.splits)

lemma reset_button_left_alone:
  "\<not> writes_reset_button ev \<Longrightarrow>
     resetBtn_disabled (elements (step b s ev)) = resetBtn_disabled (elements s)"
  by (cases ev)
     (simp_all add: handleLogin_def handleLogin_response_def verifyAuthentication_response_def
        handleLogout_def handleStartCompetition_def hideControlMessage_def clearInterval_def
        showLoginError_def showAdminControls_def showLoginSection_def showControlMessage_def
        setTimeout_def startStatusRefresh_def setInterval_def confirm_def fetch_def Let_def
        split: response.splits)

text \<open>
  C8. The claim says that the reset button is disabled for the whole of the call. The
  buttons are recomputed by every status update that is applied, and one can arrive while
  the reset waits for its response: here a poll is under way when the reset is confirmed,
  its response reports an active competition, and the button is enabled again with the
  reset request still unanswered.
\<close>

theorem reset_button_enabled_during_call_counterexample:
  "resetBtn_disabled (elements reset_pending) \<and>
   last (requests reset_pending) = Request POST (API_BASE_URL @ ''/api/admin/reset'') ''secret'' None \<and>
   \<not> resetBtn_disabled (elements (step sample_browser reset_pending
                                     (StatusResponse 1893452340000 sample_status)))"
  by (simp add: reset_pending_def run_def counting_eq live_def handleResetCompetition_def
      confirm_def fetch_def showControlMessage_def setTimeout_def fetchStatus_def Let_def
      sample_status_def ok_def fetchStatus_response_def updateButtonStates_buttons)

text \<open>
  C8, as the code has it. A confirmed reset, in an authenticated panel, disables the reset
  button before it waits for the response; the button then stays as it is under every event
  but those whose handlers write it (a status response, a start response, another reset);
  and whatever the response of the reset is (success, \<open>success: false\<close>, or a failure that
  throws) and whatever the state it arrives in, the button is enabled when the handler is
  over.
\<close>

theorem reset_button_disabled_then_reenabled:
  "isAuthenticated s \<Longrightarrow>
     handleResetCompetition True s = Awaiting (state_of (handleResetCompetition True s)) \<and>
     resetBtn_disabled (elements (state_of (handleResetCompetition True s))) \<and>
     (\<not> writes_reset_button ev \<longrightarrow>
        resetBtn_disabled (elements (step b s' ev)) = resetBtn_disabled (elements s')) \<and>
     \<not> resetBtn_disabled (elements (handleResetCompetition_response r s')) \<and>
     \<not> resetBtn_disabled (elements (completed (handleResetCompetition True s)
                                        (handleResetCompetition_response r)))"
  using reset_button_left_alone [of ev b s']
  by (simp add: handleResetCompetition_def handleResetCompetition_response_def Let_def confirm_def
      fetch_def showControlMessage_def setTimeout_def completed_def)

theorem reset_button_disabled_then_reenabled_witness:
  "isAuthenticated logged_in \<and>
   resetBtn_disabled (elements (state_of (handleResetCompetition True logged_in))) \<and>
   \<not> writes_reset_button PollTick \<and>
   resetBtn_disabled (elements (step sample_browser
      (state_of (handleResetCompetition True logged_in)) PollTick)) \<and>
   \<not> resetBtn_disabled (elements (completed (handleResetCompetition True logged_in)
      (handleResetCompetition_response (Response 200 (Some (ActionBody True Undefined)))))) \<and>
   \<not> resetBtn_disabled (elements (completed (handleResetCompetition True logged_in)
      (handleResetCompetition_response (Response 200 (Some (ActionBody False (Text ''no''))))))) \<and>
   \<not> resetBtn_disabled (elements (completed (handleResetCompetition True logged_in)
      (handleResetCompetition_response NetworkError)))"
proof -
  have h: "isAuthenticated logged_in" by (simp add: logged_in_eq)
  show ?thesis
    using h
      reset_button_disabled_then_reenabled [OF h, of PollTick sample_browser
        "state_of (handleResetCompetition True logged_in)" "Response 200 (Some (ActionBody True Undefined))"]
      reset_button_disabled_then_reenabled [OF h, of PollTick sample_browser
        "state_of (handleResetCompetition True logged_in)" "Response 200 (Some (ActionBody False (Text ''no'')))"]
      reset_button_disabled_then_reenabled [OF h, of PollTick sample_browser
        "state_of (handleResetCompetition True logged_in)" NetworkError]
    by simp
qed

end
